theory Spec2Isabelle
  imports Main "HOL-Library.Log_Nat"
begin

section \<open>JavaScript values the code relies on\<close>

text \<open>
  Strings are byte lists (text in UTF-8); the identifiers the code compares (network
  names, account and token identifiers, reason codes) are ASCII. A value thrown by the code or by the Hedera
  SDK is either an \<open>Error\<close> object, of which the code only reads the message, or some
  other value (\<open>error instanceof Error\<close> is false for it).
\<close>

datatype thrown = Error string | NonError

text \<open>
  \<open>String.prototype.toLowerCase\<close> on ASCII text: each of the letters \<open>A\<close> to \<open>Z\<close> moves
  to its lower-case letter, every other byte stays.
\<close>

definition toLowerChar :: "char \<Rightarrow> char" where
  "toLowerChar c =
     (case map_of (zip ''ABCDEFGHIJKLMNOPQRSTUVWXYZ'' ''abcdefghijklmnopqrstuvwxyz'') c of
        Some d \<Rightarrow> d
      | None \<Rightarrow> c)"

definition toLowerCase :: "string \<Rightarrow> string" where
  "toLowerCase s = map toLowerChar s"

section \<open>Network registry (types/shared/network.ts)\<close>

definition NetworkSchema :: "string list" where
  "NetworkSchema =
     [''base-sepolia'', ''base'', ''avalanche-fuji'', ''avalanche'', ''iotex'',
      ''solana-devnet'', ''solana'', ''sei'', ''sei-testnet'', ''polygon'',
      ''polygon-amoy'', ''peaq'', ''hedera-testnet'', ''hedera-mainnet'']"

definition SupportedEVMNetworks :: "string list" where
  "SupportedEVMNetworks =
     [''base-sepolia'', ''base'', ''avalanche-fuji'', ''avalanche'', ''iotex'',
      ''sei'', ''sei-testnet'', ''polygon'', ''polygon-amoy'', ''peaq'']"

definition SupportedSVMNetworks :: "string list" where
  "SupportedSVMNetworks = [''solana-devnet'', ''solana'']"

definition SupportedHederaNetworks :: "string list" where
  "SupportedHederaNetworks = [''hedera-testnet'', ''hedera-mainnet'']"

datatype NetworkFamily = evm | svm | hedera

text \<open>
  \<open>getNetworkFamily\<close> tests the three lists in order and throws
  \<open>Error("Unsupported network: " + network)\<close> when none holds the identifier.
\<close>

definition getNetworkFamily :: "string \<Rightarrow> thrown + NetworkFamily" where
  "getNetworkFamily network =
     (if network \<in> set SupportedEVMNetworks then Inr evm
      else if network \<in> set SupportedSVMNetworks then Inr svm
      else if network \<in> set SupportedHederaNetworks then Inr hedera
      else Inl (Error (''Unsupported network: '' @ network)))"

section \<open>The native-versus-asset branch\<close>

text \<open>The Verifier's predicate (facilitator/verify.ts, \<open>isHbarTransfer\<close>).\<close>

definition isHbarTransfer :: "string \<Rightarrow> bool" where
  "isHbarTransfer asset \<longleftrightarrow> asset = ''0.0.0'' \<or> toLowerCase asset = ''hbar''"

text \<open>The Builder's predicate (hedera/client.ts, \<open>isHbarAddress\<close>).\<close>

definition isHbarAddress :: "string \<Rightarrow> bool" where
  "isHbarAddress asset \<longleftrightarrow> asset = ''0.0.0'' \<or> toLowerCase asset = ''hbar''"

section \<open>Data model\<close>

text \<open>
  Account, token and transaction identifiers of the Hedera SDK are objects the code only
  ever renders with \<open>toString()\<close> and compares as strings; they are modelled by that
  rendering. A private key is opaque.
\<close>

type_synonym account_id = string
type_synonym token_id = string
type_synonym private_key = string

text \<open>
  A JavaScript number as \<open>parseInt\<close> can return it: not-a-number, an integer-valued
  double in sign and magnitude (\<open>Finite True 0\<close> is \<open>-0\<close>), or an infinity.
\<close>

datatype js_number = NaN | Finite bool nat | Infinity bool

definition negate :: "js_number \<Rightarrow> js_number" where
  "negate x = (case x of NaN \<Rightarrow> NaN | Finite s m \<Rightarrow> Finite (\<not> s) m | Infinity s \<Rightarrow> Infinity (\<not> s))"

text \<open>
  The transaction id names the account that pays the fees (\<open>accountId\<close>, possibly null)
  and a valid-start time.
\<close>

record TransactionId =
  tid_accountId :: "account_id option"
  tid_validStart :: nat

text \<open>
  A decoded or built SDK transaction: a \<open>TransferTransaction\<close> with its (possibly null)
  transaction id, its HBAR legs (account, tinybars) and its token legs (token, account,
  amount as the JavaScript number handed to \<open>addTokenTransfer\<close>), or a transaction of any
  other class.
\<close>

datatype Transaction =
    TransferTransaction "TransactionId option" "(account_id \<times> int) list"
      "(token_id \<times> account_id \<times> js_number) list"
  | OtherTransaction "TransactionId option"

record HederaSigner =
  accountId :: account_id
  privateKey :: private_key

text \<open>
  The family-specific part of a payment payload. Only the EVM shape has an
  \<open>authorization\<close> (of which the code reads \<open>from\<close>); the SVM and Hedera shapes hold a
  base64 \<open>transaction\<close>.
\<close>

datatype ExactPayload =
    ExactEvmPayload string
  | ExactSvmPayload string
  | ExactHederaPayload string

text \<open>\<open>payload.transaction\<close>: undefined (\<open>None\<close>) on the EVM shape.\<close>

definition transactionField :: "ExactPayload \<Rightarrow> string option" where
  "transactionField p =
     (case p of ExactEvmPayload _ \<Rightarrow> None | ExactSvmPayload t \<Rightarrow> Some t
      | ExactHederaPayload t \<Rightarrow> Some t)"

record PaymentPayload =
  payload_scheme :: string
  payload_network :: string
  x402Version :: nat
  payload :: ExactPayload

text \<open>
  The fields of the requirements that the code reads. \<open>extra\<close> is the optional open bag;
  its values are taken as strings, as the code's \<open>as string\<close> asserts.
\<close>

record PaymentRequirements =
  scheme :: string
  network :: string
  maxAmountRequired :: string
  payTo :: string
  asset :: string
  extra :: "(string \<rightharpoonup> string) option"

text \<open>\<open>paymentRequirements.extra?.feePayer\<close>: undefined when the bag or the field is absent.\<close>

definition feePayerOf :: "PaymentRequirements \<Rightarrow> string option" where
  "feePayerOf req = (case extra req of None \<Rightarrow> None | Some bag \<Rightarrow> bag ''feePayer'')"

record VerifyResponse =
  isValid :: bool
  invalidReason :: "string option"
  verify_payer :: "string option"

record SettleResponse =
  success :: bool
  errorReason :: "string option"
  payer :: "string option"
  transaction :: string
  settle_network :: string

text \<open>What the ledger answers: the response to a submission, by the rendering of its
  transaction id, and the receipt's status.\<close>

record TransactionResponse =
  transactionId :: string

datatype Status = Success | NotSuccess string

record TransactionReceipt =
  status :: Status

section \<open>Promises, effects and the environment\<close>

text \<open>
  An awaited promise either never settles, or settles after some milliseconds, rejected
  with a thrown value (\<open>Inl\<close>) or fulfilled (\<open>Inr\<close>).
\<close>

datatype 'a completion = Never | Settles nat "thrown + 'a"

text \<open>
  The calls that act on key material or on the ledger are recorded, in order: a signature
  with a private key, a submission (\<open>execute\<close>) and a receipt query. An asynchronous
  function of the code is a task: the calls it made, and how its promise completes.
\<close>

datatype event =
    Signing Transaction private_key
  | Submitting Transaction
  | ReceiptQuery TransactionResponse

type_synonym 'a task = "event list \<times> 'a completion"

definition returns :: "'a \<Rightarrow> 'a task" where
  "returns v = ([], Settles 0 (Inr v))"

definition throws :: "thrown \<Rightarrow> 'a task" where
  "throws e = ([], Settles 0 (Inl e))"

text \<open>\<open>after es d t\<close>: the task \<open>t\<close>, started once the calls \<open>es\<close> were made and \<open>d\<close>
  milliseconds had passed.\<close>

definition after :: "event list \<Rightarrow> nat \<Rightarrow> 'a task \<Rightarrow> 'a task" where
  "after es d t =
     (es @ fst t, case snd t of Never \<Rightarrow> Never | Settles d' r \<Rightarrow> Settles (d + d') r)"

text \<open>The argument the native path hands to \<open>Hbar.fromTinybars\<close>: the amount string
  itself, or the number JavaScript's unary minus makes of it.\<close>

datatype tinybars_arg = Given string | Negated string

text \<open>
  The environment: the constant \<open>ErrorReasons\<close> of \<open>types/verify\<close> (not among the
  sources, so a parameter) and the operations of the Hedera SDK and of Node that the
  code calls. Synchronous operations return or throw; asynchronous ones complete.
  \<^item> \<open>Transaction_fromBase64\<close>: \<open>Transaction.fromBytes(Buffer.from(s, "base64"))\<close>, on
    the payload's transaction field (\<open>None\<close> when that is undefined);
  \<^item> \<open>Transaction_reparse\<close>: \<open>Transaction.fromBytes(tx.toBytes())\<close>, of which the code
    drops the result (\<open>Some e\<close> when it throws \<open>e\<close>);
  \<^item> \<open>TransactionId_now\<close>: the clock reading \<open>TransactionId.generate\<close> uses;
  \<^item> \<open>Transaction_toBase64\<close>: \<open>Buffer.from(tx.toBytes()).toString("base64")\<close>;
  \<^item> \<open>undefinedPropertyMessage\<close>: the engine's TypeError message for reading a
    property of undefined.
\<close>

record env =
  ErrorReasons :: "string list"
  Transaction_fromBase64 :: "string option \<Rightarrow> thrown + Transaction"
  Transaction_reparse :: "Transaction \<Rightarrow> thrown option"
  Transaction_toBase64 :: "Transaction \<Rightarrow> thrown + string"
  AccountId_fromString :: "string \<Rightarrow> thrown + account_id"
  TokenId_fromString :: "string \<Rightarrow> thrown + token_id"
  TransactionId_now :: nat
  Hbar_fromTinybars :: "tinybars_arg \<Rightarrow> thrown + int"
  Transaction_freezeWith :: "Transaction \<Rightarrow> thrown + Transaction"
  Transaction_sign :: "Transaction \<Rightarrow> private_key \<Rightarrow> Transaction completion"
  Transaction_execute :: "Transaction \<Rightarrow> TransactionResponse completion"
  TransactionResponse_getReceipt :: "TransactionResponse \<Rightarrow> TransactionReceipt completion"
  encodePayment :: "PaymentPayload \<Rightarrow> thrown + string"
  undefinedPropertyMessage :: string

section \<open>The Hedera Verifier (schemes/exact/hedera/facilitator/verify.ts)\<close>

text \<open>Modelled from the spec: the constant \<open>SCHEME\<close> of \<open>schemes/exact\<close> is not among the
  sources; the spec has both schemes equal "exact".\<close>

definition SCHEME :: string where
  "SCHEME = ''exact''"

definition verifySchemesAndNetworks :: "PaymentPayload \<Rightarrow> PaymentRequirements \<Rightarrow> thrown + unit" where
  "verifySchemesAndNetworks p req =
     (if payload_scheme p \<noteq> SCHEME \<or> scheme req \<noteq> SCHEME then Inl (Error ''unsupported_scheme'')
      else if payload_network p \<noteq> network req \<or> network req \<notin> set SupportedHederaNetworks
        then Inl (Error ''invalid_network'')
      else Inr ())"

definition deserializeTransaction :: "env \<Rightarrow> string option \<Rightarrow> thrown + Transaction" where
  "deserializeTransaction e transactionBytes = Transaction_fromBase64 e transactionBytes"

definition validateHbarTransfer :: "Transaction \<Rightarrow> PaymentRequirements \<Rightarrow> thrown + unit" where
  "validateHbarTransfer tx req =
     (if \<not> isHbarTransfer (asset req)
        then Inl (Error ''invalid_exact_hedera_payload_transaction_asset_mismatch'')
      else Inr ())"

definition validateTokenTransfer :: "env \<Rightarrow> Transaction \<Rightarrow> PaymentRequirements \<Rightarrow> thrown + unit" where
  "validateTokenTransfer e tx req =
     (if isHbarTransfer (asset req)
        then Inl (Error ''invalid_exact_hedera_payload_transaction_asset_mismatch'')
      else (case TokenId_fromString e (asset req) of
              Inl _ \<Rightarrow> Inl (Error ''invalid_exact_hedera_payload_transaction_asset_mismatch'')
            | Inr _ \<Rightarrow> Inr ()))"

text \<open>
  The checks of \<open>transactionIntrospection\<close>, in the source's order: the class of the
  transaction, its transaction id, the id's account against the signer, the
  requirements' fee payer against the signer, the re-parse whose result is dropped, then
  the native or the token validation.
\<close>

definition transactionIntrospection ::
  "env \<Rightarrow> HederaSigner \<Rightarrow> Transaction \<Rightarrow> PaymentRequirements \<Rightarrow> thrown + unit" where
  "transactionIntrospection e signer tx req =
     (case tx of
        OtherTransaction _ \<Rightarrow> Inl (Error ''invalid_exact_hedera_payload_transaction'')
      | TransferTransaction tid hbarLegs tokenLegs \<Rightarrow>
          (case tid of
             None \<Rightarrow> Inl (Error ''invalid_exact_hedera_payload_transaction'')
           | Some txId \<Rightarrow>
               (case tid_accountId txId of
                  None \<Rightarrow> Inl (Error ''invalid_exact_hedera_payload_transaction_signature'')
                | Some transactionAccountId \<Rightarrow>
                    if transactionAccountId \<noteq> accountId signer
                      then Inl (Error ''invalid_exact_hedera_payload_transaction_signature'')
                    else (case feePayerOf req of
                            None \<Rightarrow> Inl (Error ''invalid_exact_hedera_payload_transaction_signature'')
                          | Some expectedFacilitatorId \<Rightarrow>
                              if expectedFacilitatorId = [] \<or> expectedFacilitatorId \<noteq> accountId signer
                                then Inl (Error ''invalid_exact_hedera_payload_transaction_signature'')
                              else (case Transaction_reparse e tx of
                                      Some err \<Rightarrow> Inl err
                                    | None \<Rightarrow>
                                        if isHbarTransfer (asset req) then validateHbarTransfer tx req
                                        else validateTokenTransfer e tx req)))))"

text \<open>
  \<open>verify\<close>: the three steps inside \<open>try\<close>; the \<open>catch\<close> turns an \<open>Error\<close> whose message is
  one of \<open>ErrorReasons\<close> into that reason and anything else into
  \<open>unexpected_verify_error\<close>. The function awaits nothing outside the code, so its promise
  is fulfilled at once with the response given here; the response has no \<open>payer\<close>.
\<close>

definition verify_try ::
  "env \<Rightarrow> HederaSigner \<Rightarrow> PaymentPayload \<Rightarrow> PaymentRequirements \<Rightarrow> thrown + unit" where
  "verify_try e signer p req =
     (case verifySchemesAndNetworks p req of
        Inl err \<Rightarrow> Inl err
      | Inr _ \<Rightarrow>
          (case deserializeTransaction e (transactionField (payload p)) of
             Inl err \<Rightarrow> Inl err
           | Inr tx \<Rightarrow> transactionIntrospection e signer tx req))"

definition verify_catch :: "env \<Rightarrow> thrown \<Rightarrow> VerifyResponse" where
  "verify_catch e err =
     (case err of
        Error msg \<Rightarrow>
          if msg \<in> set (ErrorReasons e)
            then \<lparr>isValid = False, invalidReason = Some msg, verify_payer = None\<rparr>
          else \<lparr>isValid = False, invalidReason = Some ''unexpected_verify_error'', verify_payer = None\<rparr>
      | NonError \<Rightarrow>
          \<lparr>isValid = False, invalidReason = Some ''unexpected_verify_error'', verify_payer = None\<rparr>)"

definition verify ::
  "env \<Rightarrow> HederaSigner \<Rightarrow> PaymentPayload \<Rightarrow> PaymentRequirements \<Rightarrow> VerifyResponse" where
  "verify e signer p req =
     (case verify_try e signer p req of
        Inr _ \<Rightarrow> \<lparr>isValid = True, invalidReason = None, verify_payer = None\<rparr>
      | Inl err \<Rightarrow> verify_catch e err)"

section \<open>The Hedera Settler (schemes/exact/hedera/facilitator/settle.ts)\<close>

text \<open>\<open>String.prototype.includes\<close>: the second string occurs in the first.\<close>

fun startsWith :: "string \<Rightarrow> string \<Rightarrow> bool" where
  "startsWith s [] = True"
| "startsWith [] (c # cs) = False"
| "startsWith (x # xs) (c # cs) = (x = c \<and> startsWith xs cs)"

fun String_includes :: "string \<Rightarrow> string \<Rightarrow> bool" where
  "String_includes [] sub = (sub = [])"
| "String_includes (x # xs) sub = (startsWith (x # xs) sub \<or> String_includes xs sub)"

record ExecutionResult =
  exec_success :: bool
  exec_errorReason :: "string option"
  exec_transactionId :: string

text \<open>\<open>addSignatureToTransaction\<close> (shared/hedera/transaction.ts) signs with the signer's key.\<close>

definition addSignatureToTransaction :: "env \<Rightarrow> Transaction \<Rightarrow> HederaSigner \<Rightarrow> Transaction task" where
  "addSignatureToTransaction e tx signer =
     ([Signing tx (privateKey signer)], Transaction_sign e tx (privateKey signer))"

text \<open>The \<open>catch\<close> block of \<open>executeTransaction\<close>.\<close>

definition executeTransaction_catch :: "thrown \<Rightarrow> ExecutionResult" where
  "executeTransaction_catch err =
     (case err of
        Error msg \<Rightarrow>
          if String_includes msg ''INSUFFICIENT_ACCOUNT_BALANCE''
            then \<lparr>exec_success = False,
                  exec_errorReason = Some ''invalid_exact_hedera_payload_transaction_insufficient_balance'',
                  exec_transactionId = []\<rparr>
          else if String_includes msg ''timeout'' \<or> String_includes msg ''TIMEOUT''
            then \<lparr>exec_success = False,
                  exec_errorReason = Some ''settle_exact_hedera_transaction_confirmation_timeout'',
                  exec_transactionId = []\<rparr>
          else \<lparr>exec_success = False,
                exec_errorReason = Some ''settle_exact_hedera_transaction_failed'',
                exec_transactionId = []\<rparr>
      | NonError \<Rightarrow>
          \<lparr>exec_success = False,
           exec_errorReason = Some ''settle_exact_hedera_transaction_failed'',
           exec_transactionId = []\<rparr>)"

text \<open>
  \<open>executeTransaction\<close>: sign, submit, then await \<open>transactionResponse.getReceipt\<close>
  directly. An await of a promise that never settles leaves the function pending; a
  rejection goes to the \<open>catch\<close> block.
\<close>

definition executeTransaction :: "env \<Rightarrow> Transaction \<Rightarrow> HederaSigner \<Rightarrow> ExecutionResult task" where
  "executeTransaction e tx signer =
     (case addSignatureToTransaction e tx signer of
        (es1, Never) \<Rightarrow> (es1, Never)
      | (es1, Settles d1 (Inl err)) \<Rightarrow> (es1, Settles d1 (Inr (executeTransaction_catch err)))
      | (es1, Settles d1 (Inr signedTransaction)) \<Rightarrow>
          after es1 d1
            (case Transaction_execute e signedTransaction of
               Never \<Rightarrow> ([Submitting signedTransaction], Never)
             | Settles d2 (Inl err) \<Rightarrow>
                 ([Submitting signedTransaction], Settles d2 (Inr (executeTransaction_catch err)))
             | Settles d2 (Inr transactionResponse) \<Rightarrow>
                 after [Submitting signedTransaction] d2
                   (case TransactionResponse_getReceipt e transactionResponse of
                      Never \<Rightarrow> ([ReceiptQuery transactionResponse], Never)
                    | Settles d3 (Inl err) \<Rightarrow>
                        ([ReceiptQuery transactionResponse],
                         Settles d3 (Inr (executeTransaction_catch err)))
                    | Settles d3 (Inr receipt) \<Rightarrow>
                        ([ReceiptQuery transactionResponse],
                         Settles d3 (Inr
                           (if status receipt = Success
                              then \<lparr>exec_success = True, exec_errorReason = None,
                                    exec_transactionId = transactionId transactionResponse\<rparr>
                            else \<lparr>exec_success = False,
                                  exec_errorReason = Some ''settle_exact_hedera_transaction_failed'',
                                  exec_transactionId = transactionId transactionResponse\<rparr>))))))"

text \<open>
  \<open>waitForTransactionWithTimeout\<close> races the receipt against a timer that rejects after
  \<open>timeoutMs\<close> (30000 by default). The receipt query is started before the timer, so
  the receipt wins when it settles no later than the timer.
  The function is exported; \<open>executeTransaction\<close> does not call it.
\<close>

definition defaultTimeoutMs :: nat where
  "defaultTimeoutMs = 30000"

definition waitForTransactionWithTimeout ::
  "env \<Rightarrow> TransactionResponse \<Rightarrow> nat \<Rightarrow> TransactionReceipt task" where
  "waitForTransactionWithTimeout e transactionResponse timeoutMs =
     ([ReceiptQuery transactionResponse],
      (case TransactionResponse_getReceipt e transactionResponse of
         Never \<Rightarrow> Settles timeoutMs (Inl (Error ''Transaction confirmation timeout''))
       | Settles d r \<Rightarrow>
           if d \<le> timeoutMs then Settles d r
           else Settles timeoutMs (Inl (Error ''Transaction confirmation timeout''))))"

text \<open>
  \<open>settle\<close>: verify first; on failure return at once. Otherwise decode the transaction
  again (outside the \<open>try\<close>), take the signer's own account id as \<open>payer\<close>, and run
  \<open>executeTransaction\<close> inside \<open>try\<close>.
\<close>

definition settle ::
  "env \<Rightarrow> HederaSigner \<Rightarrow> PaymentPayload \<Rightarrow> PaymentRequirements \<Rightarrow> SettleResponse task" where
  "settle e signer p req =
     (let verifyResponse = verify e signer p req in
      if \<not> isValid verifyResponse
        then returns \<lparr>success = False, errorReason = invalidReason verifyResponse, payer = None,
                      transaction = [], settle_network = payload_network p\<rparr>
      else (case deserializeTransaction e (transactionField (payload p)) of
              Inl err \<Rightarrow> throws err
            | Inr tx \<Rightarrow>
                (let payerId = accountId signer in
                 case executeTransaction e tx signer of
                   (es, Never) \<Rightarrow> (es, Never)
                 | (es, Settles d (Inl err)) \<Rightarrow>
                     (es, Settles d (Inr \<lparr>success = False,
                                          errorReason = Some ''unexpected_settle_error'',
                                          payer = None, transaction = [],
                                          settle_network = payload_network p\<rparr>))
                 | (es, Settles d (Inr r)) \<Rightarrow>
                     (es, Settles d (Inr \<lparr>success = exec_success r,
                                          errorReason = exec_errorReason r,
                                          payer = Some payerId,
                                          transaction = exec_transactionId r,
                                          settle_network = payload_network p\<rparr>)))))"

section \<open>\<open>parseInt\<close>\<close>

text \<open>
  \<open>parseInt(string)\<close> with no radix, as ECMAScript defines it: skip leading white space,
  take an optional sign, take the radix 16 after a \<open>0x\<close> or \<open>0X\<close> prefix and 10
  otherwise, read the longest prefix of digits of that radix, and stop at the first
  other character. No digit gives \<open>NaN\<close>; otherwise the result is the double nearest to
  the integer read (ties to even), with the sign. The approximation ECMAScript allows an
  engine beyond twenty significant digits is not modelled.

  The white space skipped is ECMAScript's \<open>WhiteSpace\<close> and \<open>LineTerminator\<close>, on UTF-8
  text: the single bytes TAB, LF, VT, FF, CR and space; U+00A0 (bytes C2 A0); and the
  three-byte characters U+1680, U+2000 to U+200A, U+2028, U+2029, U+202F, U+205F, U+3000
  and U+FEFF.
\<close>

definition isWhiteSpace :: "char \<Rightarrow> bool" where
  "isWhiteSpace c \<longleftrightarrow> c \<in> set [CHR 0x09, CHR 0x0A, CHR 0x0B, CHR 0x0C, CHR 0x0D, CHR '' '']"

definition isWhiteSpace3 :: "char \<Rightarrow> char \<Rightarrow> char \<Rightarrow> bool" where
  "isWhiteSpace3 a b c \<longleftrightarrow>
     [a, b, c] \<in> set
       [[CHR 0xE1, CHR 0x9A, CHR 0x80],
        [CHR 0xE2, CHR 0x80, CHR 0x80], [CHR 0xE2, CHR 0x80, CHR 0x81],
        [CHR 0xE2, CHR 0x80, CHR 0x82], [CHR 0xE2, CHR 0x80, CHR 0x83],
        [CHR 0xE2, CHR 0x80, CHR 0x84], [CHR 0xE2, CHR 0x80, CHR 0x85],
        [CHR 0xE2, CHR 0x80, CHR 0x86], [CHR 0xE2, CHR 0x80, CHR 0x87],
        [CHR 0xE2, CHR 0x80, CHR 0x88], [CHR 0xE2, CHR 0x80, CHR 0x89],
        [CHR 0xE2, CHR 0x80, CHR 0x8A],
        [CHR 0xE2, CHR 0x80, CHR 0xA8], [CHR 0xE2, CHR 0x80, CHR 0xA9],
        [CHR 0xE2, CHR 0x80, CHR 0xAF], [CHR 0xE2, CHR 0x81, CHR 0x9F],
        [CHR 0xE3, CHR 0x80, CHR 0x80], [CHR 0xEF, CHR 0xBB, CHR 0xBF]]"

fun trimStart :: "string \<Rightarrow> string" where
  "trimStart [] = []"
| "trimStart (a # s) =
     (if isWhiteSpace a then trimStart s
      else (case s of
              [] \<Rightarrow> a # s
            | b # s' \<Rightarrow>
                if a = CHR 0xC2 \<and> b = CHR 0xA0 then trimStart s'
                else (case s' of
                        [] \<Rightarrow> a # s
                      | c # s'' \<Rightarrow> if isWhiteSpace3 a b c then trimStart s'' else a # s)))"

definition digitValue :: "char \<Rightarrow> nat option" where
  "digitValue c =
     map_of (zip ''0123456789abcdefABCDEF''
                 [0, 1, 2, 3, 4, 5, 6, 7, 8, 9, 10, 11, 12, 13, 14, 15, 10, 11, 12, 13, 14, 15]) c"

definition isRadixDigit :: "nat \<Rightarrow> char \<Rightarrow> bool" where
  "isRadixDigit R c = (case digitValue c of None \<Rightarrow> False | Some v \<Rightarrow> v < R)"

definition radixValue :: "nat \<Rightarrow> string \<Rightarrow> nat" where
  "radixValue R Z = foldl (\<lambda>acc c. acc * R + (case digitValue c of None \<Rightarrow> 0 | Some v \<Rightarrow> v)) 0 Z"

text \<open>
  The double nearest to a natural number: the number itself up to \<open>2^53\<close>; above, the
  53 leading bits rounded to nearest, ties to even; \<open>None\<close> (infinity) from \<open>2^1024\<close> on.
\<close>

definition roundToDouble :: "nat \<Rightarrow> nat option" where
  "roundToDouble n =
     (if n \<le> 2 ^ 53 then Some n
      else (let sh = floorlog 2 n - 53;
                q = n div 2 ^ sh;
                r = n mod 2 ^ sh;
                half = 2 ^ (sh - 1);
                q' = (if half < r \<or> (r = half \<and> odd q) then q + 1 else q);
                m = q' * 2 ^ sh
            in if 2 ^ 1024 \<le> m then None else Some m))"

definition toNumber :: "bool \<Rightarrow> nat \<Rightarrow> js_number" where
  "toNumber neg n = (case roundToDouble n of None \<Rightarrow> Infinity neg | Some m \<Rightarrow> Finite neg m)"

definition parseInt :: "string \<Rightarrow> js_number" where
  "parseInt inputString =
     (let S = trimStart inputString;
          neg = (case S of [] \<Rightarrow> False | c # _ \<Rightarrow> c = CHR ''-'');
          S1 = (case S of [] \<Rightarrow> [] | c # cs \<Rightarrow> if c = CHR ''+'' \<or> c = CHR ''-'' then cs else S);
          hex = (take 2 S1 = ''0x'' \<or> take 2 S1 = ''0X'');
          R = (if hex then 16 else 10);
          S2 = (if hex then drop 2 S1 else S1);
          Z = takeWhile (isRadixDigit R) S2
      in if Z = [] then NaN else toNumber neg (radixValue R Z))"

section \<open>The Hedera Builder (schemes/exact/hedera/client.ts)\<close>

text \<open>\<open>TransactionId.generate(id)\<close>: an id for the account \<open>id\<close>, valid from now.\<close>

definition TransactionId_generate :: "env \<Rightarrow> account_id \<Rightarrow> TransactionId" where
  "TransactionId_generate e facilitatorAccountId =
     \<lparr>tid_accountId = Some facilitatorAccountId, tid_validStart = TransactionId_now e\<rparr>"

text \<open>
  The native path: the transaction id is the facilitator's; the debit leg takes
  \<open>Hbar.fromTinybars(-amount)\<close> and the credit leg \<open>Hbar.fromTinybars(amount)\<close>; the
  transaction is frozen with the client's connection.
\<close>

definition createHbarTransferTransaction ::
  "env \<Rightarrow> HederaSigner \<Rightarrow> account_id \<Rightarrow> PaymentRequirements \<Rightarrow> thrown + Transaction" where
  "createHbarTransferTransaction e client facilitatorAccountId req =
     (let txId = TransactionId_generate e facilitatorAccountId;
          fromAccount = accountId client
      in case AccountId_fromString e (payTo req) of
           Inl err \<Rightarrow> Inl err
         | Inr toAccount \<Rightarrow>
             (let amount = maxAmountRequired req
              in case Hbar_fromTinybars e (Negated amount) of
                   Inl err \<Rightarrow> Inl err
                 | Inr debit \<Rightarrow>
                     (case Hbar_fromTinybars e (Given amount) of
                        Inl err \<Rightarrow> Inl err
                      | Inr credit \<Rightarrow>
                          Transaction_freezeWith e
                            (TransferTransaction (Some txId)
                               [(fromAccount, debit), (toAccount, credit)] []))))"

text \<open>
  The token path: the amount of both legs is \<open>parseInt(amount)\<close>, negated for the
  debit leg. Nothing else looks at the amount string.
\<close>

definition createTokenTransferTransaction ::
  "env \<Rightarrow> HederaSigner \<Rightarrow> account_id \<Rightarrow> PaymentRequirements \<Rightarrow> thrown + Transaction" where
  "createTokenTransferTransaction e client facilitatorAccountId req =
     (let txId = TransactionId_generate e facilitatorAccountId;
          fromAccount = accountId client
      in case AccountId_fromString e (payTo req) of
           Inl err \<Rightarrow> Inl err
         | Inr toAccount \<Rightarrow>
             (let amount = maxAmountRequired req
              in case TokenId_fromString e (asset req) of
                   Inl err \<Rightarrow> Inl err
                 | Inr toTokenId \<Rightarrow>
                     Transaction_freezeWith e
                       (TransferTransaction (Some txId) []
                          [(toTokenId, fromAccount, negate (parseInt amount)),
                           (toTokenId, toAccount, parseInt amount)])))"

text \<open>The helper of the same name in shared/hedera/transaction.ts, which sets no
  transaction id and does not freeze.\<close>

definition shared_createTokenTransferTransaction ::
  "token_id \<Rightarrow> account_id \<Rightarrow> account_id \<Rightarrow> string \<Rightarrow> Transaction" where
  "shared_createTokenTransferTransaction tokenId fromAccount toAccount amount =
     TransferTransaction None []
       [(tokenId, fromAccount, negate (parseInt amount)), (tokenId, toAccount, parseInt amount)]"

text \<open>
  \<open>createTransferTransaction\<close>: the fee payer is read first and is required (an absent
  or empty value throws); then the branch on the asset.
\<close>

definition createTransferTransaction ::
  "env \<Rightarrow> HederaSigner \<Rightarrow> PaymentRequirements \<Rightarrow> thrown + Transaction" where
  "createTransferTransaction e client req =
     (case feePayerOf req of
        None \<Rightarrow> Inl (Error ''feePayer is required in paymentRequirements.extra'')
      | Some facilitatorAccountIdStr \<Rightarrow>
          if facilitatorAccountIdStr = []
            then Inl (Error ''feePayer is required in paymentRequirements.extra'')
          else (case AccountId_fromString e facilitatorAccountIdStr of
                  Inl err \<Rightarrow> Inl err
                | Inr facilitatorAccountId \<Rightarrow>
                    if isHbarAddress (asset req)
                      then createHbarTransferTransaction e client facilitatorAccountId req
                    else createTokenTransferTransaction e client facilitatorAccountId req))"

definition serializeTransaction :: "env \<Rightarrow> Transaction \<Rightarrow> thrown + string" where
  "serializeTransaction e tx = Transaction_toBase64 e tx"

text \<open>
  \<open>createAndSignPayment\<close>: build the transaction, sign it with the client's key,
  serialize it and wrap it in a payload. A failure while building leaves the task with
  no call made.
\<close>

definition createAndSignPayment ::
  "env \<Rightarrow> HederaSigner \<Rightarrow> nat \<Rightarrow> PaymentRequirements \<Rightarrow> PaymentPayload task" where
  "createAndSignPayment e client version req =
     (case createTransferTransaction e client req of
        Inl err \<Rightarrow> throws err
      | Inr tx \<Rightarrow>
          ([Signing tx (privateKey client)],
           (case Transaction_sign e tx (privateKey client) of
              Never \<Rightarrow> Never
            | Settles d (Inl err) \<Rightarrow> Settles d (Inl err)
            | Settles d (Inr signedTransaction) \<Rightarrow>
                (case serializeTransaction e signedTransaction of
                   Inl err \<Rightarrow> Settles d (Inl err)
                 | Inr base64EncodedTransaction \<Rightarrow>
                     Settles d (Inr \<lparr>payload_scheme = scheme req,
                                      payload_network = network req,
                                      x402Version = version,
                                      payload = ExactHederaPayload base64EncodedTransaction\<rparr>)))))"

definition createPaymentHeader ::
  "env \<Rightarrow> HederaSigner \<Rightarrow> nat \<Rightarrow> PaymentRequirements \<Rightarrow> string task" where
  "createPaymentHeader e client version req =
     (case createAndSignPayment e client version req of
        (es, Never) \<Rightarrow> (es, Never)
      | (es, Settles d (Inl err)) \<Rightarrow> (es, Settles d (Inl err))
      | (es, Settles d (Inr paymentPayload)) \<Rightarrow>
          (case encodePayment e paymentPayload of
             Inl err \<Rightarrow> (es, Settles d (Inl err))
           | Inr header \<Rightarrow> (es, Settles d (Inr header))))"

section \<open>The dispatcher (facilitator/facilitator.ts)\<close>

text \<open>
  The EVM and SVM verifiers and settlers of the strategy table are not among the sources:
  they are parameters. The Hedera entries are \<open>verify\<close> and \<open>settle\<close> above; the client
  is cast to a Hedera signer unchecked, and is typed as one here.
\<close>

record strategy =
  verifyExactEvm :: "PaymentPayload \<Rightarrow> PaymentRequirements \<Rightarrow> VerifyResponse completion"
  verifyExactSvm :: "PaymentPayload \<Rightarrow> PaymentRequirements \<Rightarrow> VerifyResponse completion"
  settleExactEvm :: "PaymentPayload \<Rightarrow> PaymentRequirements \<Rightarrow> SettleResponse task"
  settleExactSvm :: "PaymentPayload \<Rightarrow> PaymentRequirements \<Rightarrow> SettleResponse task"

text \<open>
  The \<open>payer\<close> of the fall-through response: on an EVM network
  \<open>payload.payload.authorization.from\<close>, which throws a TypeError when the payload has
  no \<open>authorization\<close>; the empty string on any other network.
\<close>

definition fallthrough_payer :: "env \<Rightarrow> PaymentPayload \<Rightarrow> PaymentRequirements \<Rightarrow> thrown + string" where
  "fallthrough_payer e p req =
     (if network req \<in> set SupportedEVMNetworks
        then (case payload p of
                ExactEvmPayload authorization_from \<Rightarrow> Inr authorization_from
              | ExactSvmPayload _ \<Rightarrow> Inl (Error (undefinedPropertyMessage e))
              | ExactHederaPayload _ \<Rightarrow> Inl (Error (undefinedPropertyMessage e)))
      else Inr [])"

text \<open>
  The dispatcher's \<open>verify\<close>: for the scheme "exact" it asks \<open>getNetworkFamily\<close>, with no
  \<open>try\<close> around it, and hands over to the family; any other scheme falls through to the
  \<open>invalid_scheme\<close> response.
\<close>

definition facilitator_verify ::
  "env \<Rightarrow> strategy \<Rightarrow> HederaSigner \<Rightarrow> PaymentPayload \<Rightarrow> PaymentRequirements
     \<Rightarrow> VerifyResponse completion" where
  "facilitator_verify e strat client p req =
     (if scheme req = ''exact''
        then (case getNetworkFamily (network req) of
                Inl err \<Rightarrow> Settles 0 (Inl err)
              | Inr evm \<Rightarrow> verifyExactEvm strat p req
              | Inr svm \<Rightarrow> verifyExactSvm strat p req
              | Inr hedera \<Rightarrow> Settles 0 (Inr (verify e client p req)))
      else (case fallthrough_payer e p req of
              Inl err \<Rightarrow> Settles 0 (Inl err)
            | Inr payerId \<Rightarrow>
                Settles 0 (Inr \<lparr>isValid = False, invalidReason = Some ''invalid_scheme'',
                                verify_payer = Some payerId\<rparr>)))"

definition facilitator_settle ::
  "env \<Rightarrow> strategy \<Rightarrow> HederaSigner \<Rightarrow> PaymentPayload \<Rightarrow> PaymentRequirements
     \<Rightarrow> SettleResponse task" where
  "facilitator_settle e strat client p req =
     (if scheme req = ''exact''
        then (case getNetworkFamily (network req) of
                Inl err \<Rightarrow> throws err
              | Inr evm \<Rightarrow> settleExactEvm strat p req
              | Inr svm \<Rightarrow> settleExactSvm strat p req
              | Inr hedera \<Rightarrow> settle e client p req)
      else (case fallthrough_payer e p req of
              Inl err \<Rightarrow> throws err
            | Inr payerId \<Rightarrow>
                returns \<lparr>success = False, errorReason = Some ''invalid_scheme'',
                         payer = Some payerId, transaction = [],
                         settle_network = network req\<rparr>))"

section \<open>A concrete environment\<close>

text \<open>
  The scenario of the specification: the payer \<open>0.0.123456\<close> pays 50000000 tinybars to
  \<open>0.0.789012\<close> on the Hedera testnet, the facilitator \<open>0.0.999999\<close> pays the fees. The
  SDK operations of this environment accept every identifier, decode the one payload
  \<open>dHg=\<close> to the scenario's transaction, and the ledger confirms after two seconds.
\<close>

definition example_transaction :: Transaction where
  "example_transaction =
     TransferTransaction
       (Some \<lparr>tid_accountId = Some ''0.0.999999'', tid_validStart = 1700000000\<rparr>)
       [(''0.0.123456'', - 50000000), (''0.0.789012'', 50000000)] []"

definition example_env :: env where
  "example_env =
     \<lparr>ErrorReasons =
        [''unsupported_scheme'', ''invalid_network'',
         ''invalid_exact_hedera_payload_transaction'',
         ''invalid_exact_hedera_payload_transaction_signature'',
         ''invalid_exact_hedera_payload_transaction_asset_mismatch''],
      Transaction_fromBase64 =
        (\<lambda>s. if s = Some ''dHg='' then Inr example_transaction
             else Inl (Error ''failed to decode the transaction'')),
      Transaction_reparse = (\<lambda>tx. None),
      Transaction_toBase64 = (\<lambda>tx. Inr ''dHg=''),
      AccountId_fromString = Inr,
      TokenId_fromString = Inr,
      TransactionId_now = 1700000000,
      Hbar_fromTinybars =
        (\<lambda>a. case a of Given s \<Rightarrow> Inr (int (radixValue 10 s))
                      | Negated s \<Rightarrow> Inr (- int (radixValue 10 s))),
      Transaction_freezeWith = Inr,
      Transaction_sign = (\<lambda>tx key. Settles 5 (Inr tx)),
      Transaction_execute =
        (\<lambda>tx. Settles 100 (Inr \<lparr>transactionId = ''0.0.999999@1700000000.000000000''\<rparr>)),
      TransactionResponse_getReceipt = (\<lambda>r. Settles 2000 (Inr \<lparr>status = Success\<rparr>)),
      encodePayment = (\<lambda>p. Inr ''encoded_payment_header''),
      undefinedPropertyMessage = ''Cannot read properties of undefined''\<rparr>"

definition example_strategy :: strategy where
  "example_strategy =
     \<lparr>verifyExactEvm = (\<lambda>p req. Settles 0 (Inr \<lparr>isValid = True, invalidReason = None,
                                                  verify_payer = None\<rparr>)),
      verifyExactSvm = (\<lambda>p req. Settles 0 (Inr \<lparr>isValid = True, invalidReason = None,
                                                  verify_payer = None\<rparr>)),
      settleExactEvm = (\<lambda>p req. ([], Never)),
      settleExactSvm = (\<lambda>p req. ([], Never))\<rparr>"

definition example_client :: HederaSigner where
  "example_client = \<lparr>accountId = ''0.0.123456'', privateKey = ''client-key''\<rparr>"

definition example_facilitator :: HederaSigner where
  "example_facilitator = \<lparr>accountId = ''0.0.999999'', privateKey = ''facilitator-key''\<rparr>"

definition example_requirements :: PaymentRequirements where
  "example_requirements =
     \<lparr>scheme = ''exact'', network = ''hedera-testnet'', maxAmountRequired = ''50000000'',
      payTo = ''0.0.789012'', asset = ''hbar'',
      extra = Some [''feePayer'' \<mapsto> ''0.0.999999'']\<rparr>"

definition example_payload :: PaymentPayload where
  "example_payload =
     \<lparr>payload_scheme = ''exact'', payload_network = ''hedera-testnet'', x402Version = 1,
      payload = ExactHederaPayload ''dHg=''\<rparr>"

text \<open>The token requirement of the repository's tests: one USDC (\<open>0.0.429274\<close>, six
  decimals) to the same payee.\<close>

definition example_token_requirements :: PaymentRequirements where
  "example_token_requirements =
     \<lparr>scheme = ''exact'', network = ''hedera-testnet'', maxAmountRequired = ''1000000'',
      payTo = ''0.0.789012'', asset = ''0.0.429274'',
      extra = Some [''feePayer'' \<mapsto> ''0.0.999999'']\<rparr>"

section \<open>The branch predicate in the words of the specification\<close>

text \<open>
  Two characters are the same letter when they are equal or are the upper and lower case
  of one ASCII letter; two strings are equal ignoring case when they are so character by
  character. The specification's predicate: the asset is \<open>0.0.0\<close>, or equals \<open>hbar\<close>
  ignoring case.
\<close>

definition sameLetter :: "char \<Rightarrow> char \<Rightarrow> bool" where
  "sameLetter c d \<longleftrightarrow>
     c = d \<or> (c, d) \<in> set (zip ''ABCDEFGHIJKLMNOPQRSTUVWXYZ'' ''abcdefghijklmnopqrstuvwxyz'')
           \<or> (d, c) \<in> set (zip ''ABCDEFGHIJKLMNOPQRSTUVWXYZ'' ''abcdefghijklmnopqrstuvwxyz'')"

definition equalsIgnoreCase :: "string \<Rightarrow> string \<Rightarrow> bool" where
  "equalsIgnoreCase a b = list_all2 sameLetter a b"

definition spec_isNative :: "string \<Rightarrow> bool" where
  "spec_isNative a \<longleftrightarrow> a = ''0.0.0'' \<or> equalsIgnoreCase a ''hbar''"

text \<open>The account a transaction's id names, if any: the embedded fee payer.\<close>

definition embeddedFeePayer :: "Transaction \<Rightarrow> account_id option" where
  "embeddedFeePayer tx =
     (case (case tx of TransferTransaction tid _ _ \<Rightarrow> tid | OtherTransaction tid \<Rightarrow> tid) of
        None \<Rightarrow> None
      | Some txId \<Rightarrow> tid_accountId txId)"

text \<open>A transfer transaction that carries a transaction id.\<close>

definition isTransferWithId :: "Transaction \<Rightarrow> bool" where
  "isTransferWithId tx =
     (case tx of TransferTransaction tid _ _ \<Rightarrow> tid \<noteq> None | OtherTransaction _ \<Rightarrow> False)"

text \<open>
  The number a string of decimal digits denotes, read digit by digit from the left, and
  the strings that consist of decimal digits only.
\<close>

definition decimalValue :: "string \<Rightarrow> nat" where
  "decimalValue s = foldl (\<lambda>acc c. 10 * acc + (of_char c - 48)) 0 s"

definition isDecimalString :: "string \<Rightarrow> bool" where
  "isDecimalString s \<longleftrightarrow> s \<noteq> [] \<and> set s \<subseteq> set ''0123456789''"

section \<open>Evaluation and unfolding rules\<close>

lemmas net_defs =
  SupportedEVMNetworks_def SupportedSVMNetworks_def SupportedHederaNetworks_def NetworkSchema_def

lemmas example_defs =
  example_env_def example_transaction_def example_client_def example_facilitator_def
  example_requirements_def example_payload_def example_strategy_def
  example_token_requirements_def

lemmas verify_defs =
  verify_def verify_try_def verify_catch_def verifySchemesAndNetworks_def
  deserializeTransaction_def transactionField_def transactionIntrospection_def feePayerOf_def
  validateHbarTransfer_def validateTokenTransfer_def isHbarTransfer_def SCHEME_def
  toLowerCase_def toLowerChar_def

lemmas settle_defs =
  settle_def executeTransaction_def addSignatureToTransaction_def after_def returns_def
  throws_def executeTransaction_catch_def

lemmas parse_defs =
  parseInt_def isWhiteSpace_def isWhiteSpace3_def isRadixDigit_def digitValue_def radixValue_def toNumber_def
  roundToDouble_def negate_def

lemmas build_defs =
  createAndSignPayment_def createPaymentHeader_def createTransferTransaction_def
  createHbarTransferTransaction_def createTokenTransferTransaction_def
  serializeTransaction_def TransactionId_generate_def isHbarAddress_def feePayerOf_def
  toLowerCase_def toLowerChar_def throws_def

section \<open>The network registry classifies\<close>

lemma families_disjoint:
  "set SupportedEVMNetworks \<inter> set SupportedSVMNetworks = {}"
  "set SupportedEVMNetworks \<inter> set SupportedHederaNetworks = {}"
  "set SupportedSVMNetworks \<inter> set SupportedHederaNetworks = {}"
  by (simp_all add: net_defs)

lemma table_is_union:
  "set NetworkSchema =
     set SupportedEVMNetworks \<union> set SupportedSVMNetworks \<union> set SupportedHederaNetworks"
  by (auto simp add: net_defs)

text \<open>
  C8. \<open>getNetworkFamily\<close> returns a family for every identifier of the static table; it
  returns a given family exactly for the identifiers of that family's list, and the three
  lists are pairwise disjoint, so no identifier belongs to two families; for an
  identifier outside the table it throws the \<open>Unsupported network\<close> error and returns no
  family.
\<close>

theorem getNetworkFamily_classifies:
  "(\<forall>n \<in> set NetworkSchema. \<exists>f. getNetworkFamily n = Inr f)
   \<and> (getNetworkFamily n = Inr evm \<longleftrightarrow> n \<in> set SupportedEVMNetworks)
   \<and> (getNetworkFamily n = Inr svm \<longleftrightarrow> n \<in> set SupportedSVMNetworks)
   \<and> (getNetworkFamily n = Inr hedera \<longleftrightarrow> n \<in> set SupportedHederaNetworks)
   \<and> set SupportedEVMNetworks \<inter> set SupportedSVMNetworks = {}
   \<and> set SupportedEVMNetworks \<inter> set SupportedHederaNetworks = {}
   \<and> set SupportedSVMNetworks \<inter> set SupportedHederaNetworks = {}
   \<and> (n \<notin> set NetworkSchema \<longrightarrow>
        getNetworkFamily n = Inl (Error (''Unsupported network: '' @ n)))"
proof -
  have total: "\<forall>n \<in> set NetworkSchema. \<exists>f. getNetworkFamily n = Inr f"
    unfolding table_is_union by (auto simp: getNetworkFamily_def)
  have e: "getNetworkFamily n = Inr evm \<longleftrightarrow> n \<in> set SupportedEVMNetworks"
    by (auto simp: getNetworkFamily_def)
  have s: "getNetworkFamily n = Inr svm \<longleftrightarrow> n \<in> set SupportedSVMNetworks"
    using families_disjoint(1) by (auto simp: getNetworkFamily_def)
  have h: "getNetworkFamily n = Inr hedera \<longleftrightarrow> n \<in> set SupportedHederaNetworks"
    using families_disjoint(2,3) by (auto simp: getNetworkFamily_def)
  have u: "n \<notin> set NetworkSchema \<longrightarrow>
             getNetworkFamily n = Inl (Error (''Unsupported network: '' @ n))"
    unfolding table_is_union by (simp add: getNetworkFamily_def)
  from total e s h u families_disjoint show ?thesis by blast
qed

theorem getNetworkFamily_classifies_witness:
  "getNetworkFamily ''hedera-testnet'' = Inr hedera
   \<and> ''hedera-testnet'' \<in> set NetworkSchema
   \<and> ''hedera-testnet'' \<notin> set SupportedEVMNetworks
   \<and> ''hedera-testnet'' \<notin> set SupportedSVMNetworks
   \<and> ''dogecoin'' \<notin> set NetworkSchema
   \<and> getNetworkFamily ''dogecoin'' = Inl (Error ''Unsupported network: dogecoin'')"
  using getNetworkFamily_classifies [of "''hedera-testnet''"]
    getNetworkFamily_classifies [of "''dogecoin''"]
  by (simp add: net_defs)

section \<open>Builder and Verifier take the same branch\<close>

lemma toLowerChar_hbar:
  "toLowerChar c = CHR ''h'' \<longleftrightarrow> sameLetter c CHR ''h''"
  "toLowerChar c = CHR ''b'' \<longleftrightarrow> sameLetter c CHR ''b''"
  "toLowerChar c = CHR ''a'' \<longleftrightarrow> sameLetter c CHR ''a''"
  "toLowerChar c = CHR ''r'' \<longleftrightarrow> sameLetter c CHR ''r''"
  by (auto simp: toLowerChar_def sameLetter_def split: if_splits)

lemma toLowerCase_hbar: "toLowerCase a = ''hbar'' \<longleftrightarrow> equalsIgnoreCase a ''hbar''"
  by (auto simp: toLowerCase_def equalsIgnoreCase_def map_eq_Cons_conv list_all2_Cons2
      toLowerChar_hbar)

text \<open>
  C6. The Builder's predicate \<open>isHbarAddress\<close> and the Verifier's predicate
  \<open>isHbarTransfer\<close> agree on every asset string, and both hold exactly when the asset is
  \<open>0.0.0\<close> or equals \<open>hbar\<close> ignoring case; for every other asset string both choose the
  asset branch.
\<close>

theorem branch_predicates_agree:
  "isHbarAddress a = isHbarTransfer a \<and> isHbarTransfer a = spec_isNative a"
  by (simp add: isHbarAddress_def isHbarTransfer_def spec_isNative_def toLowerCase_hbar)

section \<open>The fee-payer identity check of the Verifier\<close>

lemma verify_catch_invalid: "isValid (verify_catch e err) = False"
  by (simp add: verify_catch_def split: thrown.splits)

lemma verify_valid_iff: "isValid (verify e signer p req) \<longleftrightarrow> (\<exists>u. verify_try e signer p req = Inr u)"
  by (cases "verify_try e signer p req") (simp_all add: verify_def verify_catch_invalid)

lemma introspection_ok_agree:
  assumes "transactionIntrospection e signer tx req = Inr u"
  shows "embeddedFeePayer tx = Some (accountId signer) \<and> feePayerOf req = Some (accountId signer)"
  using assms
  by (auto simp: transactionIntrospection_def embeddedFeePayer_def
      split: Transaction.splits option.splits if_splits)

lemma introspection_mismatch_reason:
  assumes "isTransferWithId tx"
    and "embeddedFeePayer tx \<noteq> feePayerOf req \<or> embeddedFeePayer tx \<noteq> Some (accountId signer)"
  shows "transactionIntrospection e signer tx req =
           Inl (Error ''invalid_exact_hedera_payload_transaction_signature'')"
  using assms
  by (auto simp: transactionIntrospection_def embeddedFeePayer_def isTransferWithId_def
      split: Transaction.splits option.splits if_splits)

text \<open>
  C1. Let the payload decode to a transaction whose embedded fee payer (the account of
  its transaction id) differs from \<open>requirements.extra.feePayer\<close> or from the
  facilitator signer's own account id. Then \<open>verify\<close> does not return \<open>isValid: true\<close>.
  If moreover the scheme and network checks pass, the transaction is a transfer with a
  transaction id, and \<open>ErrorReasons\<close> lists the signature reason, then \<open>verify\<close> returns
  \<open>isValid: false\<close> with \<open>invalid_exact_hedera_payload_transaction_signature\<close>, whatever
  amount, recipient and asset the requirements name. Conversely, whenever \<open>verify\<close>
  returns \<open>isValid: true\<close>, the embedded fee payer, \<open>extra.feePayer\<close> and the signer's
  account id all agree.
\<close>

theorem verify_rejects_fee_payer_mismatch:
  "(deserializeTransaction e (transactionField (payload p)) = Inr tx
      \<and> (embeddedFeePayer tx \<noteq> feePayerOf req \<or> embeddedFeePayer tx \<noteq> Some (accountId signer))
    \<longrightarrow> \<not> isValid (verify e signer p req))
   \<and> (deserializeTransaction e (transactionField (payload p)) = Inr tx
      \<and> (embeddedFeePayer tx \<noteq> feePayerOf req \<or> embeddedFeePayer tx \<noteq> Some (accountId signer))
      \<and> verifySchemesAndNetworks p req = Inr () \<and> isTransferWithId tx
      \<and> ''invalid_exact_hedera_payload_transaction_signature'' \<in> set (ErrorReasons e)
    \<longrightarrow> verify e signer p (req\<lparr>maxAmountRequired := amount, payTo := recipient, asset := anyAsset\<rparr>) =
          \<lparr>isValid = False,
           invalidReason = Some ''invalid_exact_hedera_payload_transaction_signature'',
           verify_payer = None\<rparr>)
   \<and> (isValid (verify e signer p req)
    \<longrightarrow> (\<exists>tx'. deserializeTransaction e (transactionField (payload p)) = Inr tx'
            \<and> embeddedFeePayer tx' = Some (accountId signer)
            \<and> feePayerOf req = Some (accountId signer)))"
proof (intro conjI impI)
  assume a: "deserializeTransaction e (transactionField (payload p)) = Inr tx
      \<and> (embeddedFeePayer tx \<noteq> feePayerOf req \<or> embeddedFeePayer tx \<noteq> Some (accountId signer))"
  show "\<not> isValid (verify e signer p req)"
  proof
    assume "isValid (verify e signer p req)"
    then obtain u where "verify_try e signer p req = Inr u"
      by (auto simp: verify_valid_iff)
    with a have "transactionIntrospection e signer tx req = Inr u"
      by (auto simp: verify_try_def split: sum.splits)
    from introspection_ok_agree [OF this] a show False by simp
  qed
next
  let ?req = "req\<lparr>maxAmountRequired := amount, payTo := recipient, asset := anyAsset\<rparr>"
  assume a: "deserializeTransaction e (transactionField (payload p)) = Inr tx
      \<and> (embeddedFeePayer tx \<noteq> feePayerOf req \<or> embeddedFeePayer tx \<noteq> Some (accountId signer))
      \<and> verifySchemesAndNetworks p req = Inr () \<and> isTransferWithId tx
      \<and> ''invalid_exact_hedera_payload_transaction_signature'' \<in> set (ErrorReasons e)"
  have f: "feePayerOf ?req = feePayerOf req"
    by (simp add: feePayerOf_def)
  have s: "verifySchemesAndNetworks p ?req = verifySchemesAndNetworks p req"
    by (simp add: verifySchemesAndNetworks_def)
  from a f have "transactionIntrospection e signer tx ?req =
      Inl (Error ''invalid_exact_hedera_payload_transaction_signature'')"
    by (intro introspection_mismatch_reason) simp_all
  with a s have "verify_try e signer p ?req =
      Inl (Error ''invalid_exact_hedera_payload_transaction_signature'')"
    by (simp add: verify_try_def)
  with a show "verify e signer p ?req =
      \<lparr>isValid = False,
       invalidReason = Some ''invalid_exact_hedera_payload_transaction_signature'',
       verify_payer = None\<rparr>"
    by (simp add: verify_def verify_catch_def)
next
  assume "isValid (verify e signer p req)"
  then obtain u where t: "verify_try e signer p req = Inr u"
    by (auto simp: verify_valid_iff)
  then obtain tx' where d: "deserializeTransaction e (transactionField (payload p)) = Inr tx'"
    and i: "transactionIntrospection e signer tx' req = Inr u"
    by (auto simp: verify_try_def split: sum.splits)
  from introspection_ok_agree [OF i] d
  show "\<exists>tx'. deserializeTransaction e (transactionField (payload p)) = Inr tx'
            \<and> embeddedFeePayer tx' = Some (accountId signer)
            \<and> feePayerOf req = Some (accountId signer)"
    by blast
qed


theorem verify_rejects_fee_payer_mismatch_witness:
  "deserializeTransaction example_env (transactionField (payload example_payload)) =
     Inr example_transaction
   \<and> embeddedFeePayer example_transaction
       \<noteq> feePayerOf (example_requirements\<lparr>extra := Some [''feePayer'' \<mapsto> ''0.0.111111'']\<rparr>)
   \<and> verifySchemesAndNetworks example_payload
         (example_requirements\<lparr>extra := Some [''feePayer'' \<mapsto> ''0.0.111111'']\<rparr>) = Inr ()
   \<and> isTransferWithId example_transaction
   \<and> \<not> isValid (verify example_env example_facilitator example_payload
         (example_requirements\<lparr>extra := Some [''feePayer'' \<mapsto> ''0.0.111111'']\<rparr>))
   \<and> verify example_env example_facilitator example_payload
         (example_requirements\<lparr>extra := Some [''feePayer'' \<mapsto> ''0.0.111111''],
            maxAmountRequired := ''1'', payTo := ''0.0.5'', asset := ''0.0.429274''\<rparr>) =
       \<lparr>isValid = False,
        invalidReason = Some ''invalid_exact_hedera_payload_transaction_signature'',
        verify_payer = None\<rparr>
   \<and> isValid (verify example_env example_facilitator example_payload example_requirements)
   \<and> embeddedFeePayer example_transaction = Some (accountId example_facilitator)
   \<and> feePayerOf example_requirements = Some (accountId example_facilitator)"
proof -
  let ?bad = "example_requirements\<lparr>extra := Some [''feePayer'' \<mapsto> ''0.0.111111'']\<rparr>"
  have d: "deserializeTransaction example_env (transactionField (payload example_payload)) =
      Inr example_transaction"
    by (simp add: deserializeTransaction_def transactionField_def example_defs)
  have m: "embeddedFeePayer example_transaction \<noteq> feePayerOf ?bad"
    by (simp add: embeddedFeePayer_def feePayerOf_def example_defs)
  have s: "verifySchemesAndNetworks example_payload ?bad = Inr ()"
    by (simp add: verifySchemesAndNetworks_def SCHEME_def example_defs net_defs)
  have t: "isTransferWithId example_transaction"
    by (simp add: isTransferWithId_def example_defs)
  have r: "''invalid_exact_hedera_payload_transaction_signature'' \<in> set (ErrorReasons example_env)"
    by (simp add: example_defs)
  have v: "isValid (verify example_env example_facilitator example_payload example_requirements)"
    by (simp add: verify_defs example_defs net_defs)
  have ag: "embeddedFeePayer example_transaction = Some (accountId example_facilitator)
      \<and> feePayerOf example_requirements = Some (accountId example_facilitator)"
    by (simp add: embeddedFeePayer_def feePayerOf_def example_defs)
  from d m s t r v ag
    verify_rejects_fee_payer_mismatch [where e = example_env and p = example_payload
      and tx = example_transaction and req = ?bad and signer = example_facilitator
      and amount = "''1''" and recipient = "''0.0.5''" and anyAsset = "''0.0.429274''"]
  show ?thesis by simp
qed

section \<open>Settle re-runs the Verifier\<close>

text \<open>
  C2. Whenever \<open>verify\<close> returns \<open>isValid: false\<close> with reason \<open>R\<close>, \<open>settle\<close> returns at
  once \<open>success: false\<close> with \<open>errorReason\<close> \<open>R\<close> and the empty \<open>transaction\<close>, and its
  list of calls is empty: no signature by the facilitator, no submission, no receipt
  query.
\<close>

theorem settle_returns_verify_failure:
  assumes "\<not> isValid (verify e signer p req)"
    and "invalidReason (verify e signer p req) = Some R"
  shows "settle e signer p req =
           ([], Settles 0 (Inr \<lparr>success = False, errorReason = Some R, payer = None,
                                transaction = [], settle_network = payload_network p\<rparr>))"
  using assms by (simp add: settle_def returns_def Let_def)

theorem settle_returns_verify_failure_witness:
  "\<not> isValid (verify example_env example_facilitator example_payload
        (example_requirements\<lparr>network := ''hedera-mainnet''\<rparr>))
   \<and> invalidReason (verify example_env example_facilitator example_payload
        (example_requirements\<lparr>network := ''hedera-mainnet''\<rparr>)) = Some ''invalid_network''
   \<and> settle example_env example_facilitator example_payload
        (example_requirements\<lparr>network := ''hedera-mainnet''\<rparr>) =
       ([], Settles 0 (Inr \<lparr>success = False, errorReason = Some ''invalid_network'',
                            payer = None, transaction = [],
                            settle_network = ''hedera-testnet''\<rparr>))"
proof -
  let ?req = "example_requirements\<lparr>network := ''hedera-mainnet''\<rparr>"
  have v: "verify example_env example_facilitator example_payload ?req =
      \<lparr>isValid = False, invalidReason = Some ''invalid_network'', verify_payer = None\<rparr>"
    by (simp add: verify_def verify_try_def verify_catch_def verifySchemesAndNetworks_def
        SCHEME_def example_defs net_defs)
  have n: "payload_network example_payload = ''hedera-testnet''"
    by (simp add: example_defs)
  from v n settle_returns_verify_failure [of example_env example_facilitator example_payload
      ?req "''invalid_network''"]
  show ?thesis by simp
qed

section \<open>What the Verifier does not check on the native path\<close>

text \<open>
  C3. For a native (HBAR) asset requirement: once the scheme and network checks pass, the
  payload decodes to a transfer transaction whose id names the signer's account, the
  requirements' fee payer is that same (non-empty) account id, and the SDK's re-parse of
  the transaction does not throw, \<open>verify\<close> returns \<open>isValid: true\<close>, for every list of
  HBAR and token legs in the transaction and every \<open>maxAmountRequired\<close> and \<open>payTo\<close> in
  the requirements: neither is compared with the transaction's legs.
\<close>

theorem verify_native_ignores_transfers:
  assumes "verifySchemesAndNetworks p req = Inr ()"
    and "deserializeTransaction e (transactionField (payload p)) =
           Inr (TransferTransaction (Some txId) hbarLegs tokenLegs)"
    and "tid_accountId txId = Some (accountId signer)"
    and "feePayerOf req = Some (accountId signer)"
    and "accountId signer \<noteq> []"
    and "Transaction_reparse e (TransferTransaction (Some txId) hbarLegs tokenLegs) = None"
    and "isHbarTransfer (asset req)"
  shows "verify e signer p (req\<lparr>maxAmountRequired := amount, payTo := recipient\<rparr>) =
           \<lparr>isValid = True, invalidReason = None, verify_payer = None\<rparr>"
proof -
  let ?req = "req\<lparr>maxAmountRequired := amount, payTo := recipient\<rparr>"
  have s: "verifySchemesAndNetworks p ?req = Inr ()"
    using assms(1) by (simp add: verifySchemesAndNetworks_def split: if_splits)
  have f: "feePayerOf ?req = Some (accountId signer)"
    using assms(4) by (simp add: feePayerOf_def)
  have "transactionIntrospection e signer (TransferTransaction (Some txId) hbarLegs tokenLegs) ?req
      = Inr ()"
    using assms(3,5,6,7) f by (simp add: transactionIntrospection_def validateHbarTransfer_def)
  with s assms(2) show ?thesis
    by (simp add: verify_def verify_try_def)
qed

theorem verify_native_ignores_transfers_witness:
  "verify
     (example_env\<lparr>Transaction_fromBase64 :=
        (\<lambda>s. Inr (TransferTransaction
           (Some \<lparr>tid_accountId = Some ''0.0.999999'', tid_validStart = 1700000000\<rparr>)
           [(''0.0.123456'', - 1), (''0.0.555555'', 1)] []))\<rparr>)
     example_facilitator example_payload
     (example_requirements\<lparr>maxAmountRequired := ''50000000'', payTo := ''0.0.789012''\<rparr>) =
   \<lparr>isValid = True, invalidReason = None, verify_payer = None\<rparr>"
proof -
  let ?tx = "TransferTransaction
           (Some \<lparr>tid_accountId = Some ''0.0.999999'', tid_validStart = 1700000000\<rparr>)
           [(''0.0.123456'', - 1), (''0.0.555555'', 1)] []"
  let ?e = "example_env\<lparr>Transaction_fromBase64 := (\<lambda>s. Inr ?tx)\<rparr>"
  have 1: "verifySchemesAndNetworks example_payload example_requirements = Inr ()"
    by (simp add: verifySchemesAndNetworks_def SCHEME_def example_defs net_defs)
  have 2: "deserializeTransaction ?e (transactionField (payload example_payload)) = Inr ?tx"
    by (simp add: deserializeTransaction_def)
  have 3: "tid_accountId \<lparr>tid_accountId = Some ''0.0.999999'', tid_validStart = 1700000000\<rparr>
      = Some (accountId example_facilitator)"
    by (simp add: example_defs)
  have 4: "feePayerOf example_requirements = Some (accountId example_facilitator)"
    by (simp add: feePayerOf_def example_defs)
  have 5: "accountId example_facilitator \<noteq> []"
    by (simp add: example_defs)
  have 6: "Transaction_reparse ?e ?tx = None"
    by (simp add: example_defs)
  have 7: "isHbarTransfer (asset example_requirements)"
    by (simp add: isHbarTransfer_def toLowerCase_def toLowerChar_def example_defs)
  show ?thesis
    by (rule verify_native_ignores_transfers [OF 1 2 3 4 5 6 7])
qed

section \<open>The Builder requires the fee payer\<close>

text \<open>
  C9. When the requirements' \<open>extra\<close> bag is absent or has no \<open>feePayer\<close> field, no
  transaction is built: \<open>createTransferTransaction\<close> throws
  \<open>feePayer is required in paymentRequirements.extra\<close>, and \<open>createAndSignPayment\<close> and
  \<open>createPaymentHeader\<close> reject with that error having made no call at all, so no
  signature is produced and no transaction id, for the payer's account or any other, is
  generated.
\<close>

theorem builder_requires_feePayer:
  assumes "feePayerOf req = None"
  shows "createTransferTransaction e client req =
           Inl (Error ''feePayer is required in paymentRequirements.extra'')
         \<and> createAndSignPayment e client version req =
           ([], Settles 0 (Inl (Error ''feePayer is required in paymentRequirements.extra'')))
         \<and> createPaymentHeader e client version req =
           ([], Settles 0 (Inl (Error ''feePayer is required in paymentRequirements.extra'')))"
  using assms
  by (simp add: createTransferTransaction_def createAndSignPayment_def createPaymentHeader_def
      throws_def)

theorem builder_requires_feePayer_witness:
  "feePayerOf (example_requirements\<lparr>extra := Some Map.empty\<rparr>) = None
   \<and> createAndSignPayment example_env example_client 1
        (example_requirements\<lparr>extra := Some Map.empty\<rparr>) =
       ([], Settles 0 (Inl (Error ''feePayer is required in paymentRequirements.extra'')))
   \<and> createPaymentHeader example_env example_client 1
        (example_requirements\<lparr>extra := Some Map.empty\<rparr>) =
       ([], Settles 0 (Inl (Error ''feePayer is required in paymentRequirements.extra'')))"
proof -
  have h: "feePayerOf (example_requirements\<lparr>extra := Some Map.empty\<rparr>) = None"
    by (simp add: feePayerOf_def)
  from h builder_requires_feePayer [OF h, of example_env example_client 1]
  show ?thesis by simp
qed

section \<open>The wait for the receipt\<close>

text \<open>
  C5. The code at a payment that verifies, on a ledger whose receipt arrives after sixty
  seconds, and on one whose receipt never arrives: \<open>settle\<close> returns \<open>success: true\<close>
  after the sixty seconds in the first case and never returns in the second, where the
  claim has \<open>success: false\<close> with the confirmation-timeout reason after thirty seconds.
  \<open>waitForTransactionWithTimeout\<close> with its default would reject after 30000 ms with
  a message the \<open>catch\<close> block maps to the timeout reason, but \<open>executeTransaction\<close> does
  not call it.
\<close>

theorem settle_awaits_receipt_unbounded:
  "settle (example_env\<lparr>TransactionResponse_getReceipt :=
             (\<lambda>r. Settles 60000 (Inr \<lparr>status = Success\<rparr>))\<rparr>)
          example_facilitator example_payload example_requirements =
     ([Signing example_transaction ''facilitator-key'', Submitting example_transaction,
       ReceiptQuery \<lparr>transactionId = ''0.0.999999@1700000000.000000000''\<rparr>],
      Settles 60105 (Inr \<lparr>success = True, errorReason = None, payer = Some ''0.0.999999'',
                           transaction = ''0.0.999999@1700000000.000000000'',
                           settle_network = ''hedera-testnet''\<rparr>))
   \<and> settle (example_env\<lparr>TransactionResponse_getReceipt := (\<lambda>r. Never)\<rparr>)
          example_facilitator example_payload example_requirements =
     ([Signing example_transaction ''facilitator-key'', Submitting example_transaction,
       ReceiptQuery \<lparr>transactionId = ''0.0.999999@1700000000.000000000''\<rparr>],
      Never)
   \<and> waitForTransactionWithTimeout
          (example_env\<lparr>TransactionResponse_getReceipt := (\<lambda>r. Never)\<rparr>)
          \<lparr>transactionId = ''0.0.999999@1700000000.000000000''\<rparr> defaultTimeoutMs =
     ([ReceiptQuery \<lparr>transactionId = ''0.0.999999@1700000000.000000000''\<rparr>],
      Settles 30000 (Inl (Error ''Transaction confirmation timeout'')))"
proof -
  have v: "\<And>g. verify (example_env\<lparr>TransactionResponse_getReceipt := g\<rparr>)
      example_facilitator example_payload example_requirements =
      \<lparr>isValid = True, invalidReason = None, verify_payer = None\<rparr>"
    by (simp add: verify_defs example_defs net_defs)
  have a: "settle (example_env\<lparr>TransactionResponse_getReceipt :=
             (\<lambda>r. Settles 60000 (Inr \<lparr>status = Success\<rparr>))\<rparr>)
          example_facilitator example_payload example_requirements =
     ([Signing example_transaction ''facilitator-key'', Submitting example_transaction,
       ReceiptQuery \<lparr>transactionId = ''0.0.999999@1700000000.000000000''\<rparr>],
      Settles 60105 (Inr \<lparr>success = True, errorReason = None, payer = Some ''0.0.999999'',
                           transaction = ''0.0.999999@1700000000.000000000'',
                           settle_network = ''hedera-testnet''\<rparr>))"
    by (simp add: settle_def v)
      (simp add: settle_defs deserializeTransaction_def transactionField_def example_defs)
  have b: "settle (example_env\<lparr>TransactionResponse_getReceipt := (\<lambda>r. Never)\<rparr>)
          example_facilitator example_payload example_requirements =
     ([Signing example_transaction ''facilitator-key'', Submitting example_transaction,
       ReceiptQuery \<lparr>transactionId = ''0.0.999999@1700000000.000000000''\<rparr>],
      Never)"
    by (simp add: settle_def v)
      (simp add: settle_defs deserializeTransaction_def transactionField_def example_defs)
  have c: "waitForTransactionWithTimeout
          (example_env\<lparr>TransactionResponse_getReceipt := (\<lambda>r. Never)\<rparr>)
          \<lparr>transactionId = ''0.0.999999@1700000000.000000000''\<rparr> defaultTimeoutMs =
     ([ReceiptQuery \<lparr>transactionId = ''0.0.999999@1700000000.000000000''\<rparr>],
      Settles 30000 (Inl (Error ''Transaction confirmation timeout'')))"
    by (simp add: waitForTransactionWithTimeout_def defaultTimeoutMs_def)
  from a b c show ?thesis by blast
qed

section \<open>What the dispatcher returns and what it throws\<close>

lemma executeTransaction_never_rejects:
  "snd (executeTransaction e tx signer) \<noteq> Settles d (Inl err)"
  by (simp add: executeTransaction_def addSignatureToTransaction_def after_def
      split: completion.splits sum.splits)

lemma verify_valid_decodes:
  assumes "isValid (verify e signer p req)"
  shows "\<exists>tx. deserializeTransaction e (transactionField (payload p)) = Inr tx
           \<and> transactionIntrospection e signer tx req = Inr ()"
proof -
  from assms have "verify_try e signer p req = Inr ()"
    by (cases "verify_try e signer p req")
      (simp_all add: verify_def verify_catch_def split: thrown.splits if_splits)
  then show ?thesis
    by (auto simp: verify_try_def split: sum.splits)
qed

lemma settle_never_rejects:
  "snd (settle e signer p req) \<noteq> Settles d (Inl err)"
proof (cases "isValid (verify e signer p req)")
  case False
  then show ?thesis by (simp add: settle_def returns_def Let_def)
next
  case True
  from verify_valid_decodes [OF True] obtain tx where
    d: "deserializeTransaction e (transactionField (payload p)) = Inr tx" by blast
  obtain es c where x: "executeTransaction e tx signer = (es, c)"
    by (cases "executeTransaction e tx signer")
  show ?thesis
    using True d x
    by (simp add: settle_def Let_def split: completion.splits sum.splits)
qed

text \<open>
  C4, as amended. For a scheme other than "exact" the dispatcher-level \<open>verify\<close> and
  \<open>settle\<close> return the \<open>invalid_scheme\<close> failure response, with the empty payer on every
  network that is not an EVM network (classifiable or not) and with
  \<open>authorization.from\<close> on an EVM network with an EVM-shaped payload. For the scheme
  "exact" and a network outside the static table, the error of \<open>getNetworkFamily\<close>
  propagates: both entry points reject with \<open>Unsupported network\<close>. For the scheme
  "exact" and a Hedera network they return what the Hedera \<open>verify\<close> and \<open>settle\<close>
  return, and the Hedera \<open>settle\<close> never rejects.
\<close>

theorem dispatcher_outcomes:
  "(scheme req \<noteq> ''exact'' \<and> network req \<notin> set SupportedEVMNetworks \<longrightarrow>
      facilitator_verify e strat client p req =
        Settles 0 (Inr \<lparr>isValid = False, invalidReason = Some ''invalid_scheme'',
                        verify_payer = Some []\<rparr>)
      \<and> facilitator_settle e strat client p req =
        ([], Settles 0 (Inr \<lparr>success = False, errorReason = Some ''invalid_scheme'',
                             payer = Some [], transaction = [],
                             settle_network = network req\<rparr>)))
   \<and> (scheme req \<noteq> ''exact'' \<and> network req \<in> set SupportedEVMNetworks
        \<and> payload p = ExactEvmPayload authorization_from \<longrightarrow>
      facilitator_verify e strat client p req =
        Settles 0 (Inr \<lparr>isValid = False, invalidReason = Some ''invalid_scheme'',
                        verify_payer = Some authorization_from\<rparr>)
      \<and> facilitator_settle e strat client p req =
        ([], Settles 0 (Inr \<lparr>success = False, errorReason = Some ''invalid_scheme'',
                             payer = Some authorization_from, transaction = [],
                             settle_network = network req\<rparr>)))
   \<and> (scheme req = ''exact'' \<and> network req \<notin> set NetworkSchema \<longrightarrow>
      facilitator_verify e strat client p req =
        Settles 0 (Inl (Error (''Unsupported network: '' @ network req)))
      \<and> facilitator_settle e strat client p req =
        ([], Settles 0 (Inl (Error (''Unsupported network: '' @ network req)))))
   \<and> (scheme req = ''exact'' \<and> network req \<in> set SupportedHederaNetworks \<longrightarrow>
      facilitator_verify e strat client p req = Settles 0 (Inr (verify e client p req))
      \<and> facilitator_settle e strat client p req = settle e client p req
      \<and> (\<forall>d err. snd (facilitator_settle e strat client p req) \<noteq> Settles d (Inl err)))"
proof (intro conjI impI)
  assume "scheme req = ''exact'' \<and> network req \<notin> set NetworkSchema"
  then have s: "scheme req = ''exact''"
    and g: "getNetworkFamily (network req) = Inl (Error (''Unsupported network: '' @ network req))"
    by (simp_all add: getNetworkFamily_def table_is_union)
  from s g show "facilitator_verify e strat client p req =
        Settles 0 (Inl (Error (''Unsupported network: '' @ network req)))"
    by (simp add: facilitator_verify_def)
  from s g show "facilitator_settle e strat client p req =
        ([], Settles 0 (Inl (Error (''Unsupported network: '' @ network req))))"
    by (simp add: facilitator_settle_def throws_def)
next
  assume "scheme req = ''exact'' \<and> network req \<in> set SupportedHederaNetworks"
  then have s: "scheme req = ''exact''"
    and g: "getNetworkFamily (network req) = Inr hedera"
    using families_disjoint(2,3) by (auto simp add: getNetworkFamily_def)
  from s g show "facilitator_verify e strat client p req = Settles 0 (Inr (verify e client p req))"
    by (simp add: facilitator_verify_def)
  from s g show st: "facilitator_settle e strat client p req = settle e client p req"
    by (simp add: facilitator_settle_def)
  show "\<forall>d err. snd (facilitator_settle e strat client p req) \<noteq> Settles d (Inl err)"
    unfolding st by (simp add: settle_never_rejects)
qed (simp_all add: facilitator_verify_def facilitator_settle_def fallthrough_payer_def returns_def)

text \<open>
  C4, the claim as stated fails: with the scheme "exact" and the unclassifiable network
  \<open>bitcoin\<close>, both entry points reject with the error \<open>getNetworkFamily\<close> throws; no
  \<open>invalid_scheme\<close> response is returned.
\<close>

theorem dispatcher_throws_on_unknown_network:
  "facilitator_verify example_env example_strategy example_facilitator example_payload
     (example_requirements\<lparr>network := ''bitcoin''\<rparr>) =
     Settles 0 (Inl (Error ''Unsupported network: bitcoin''))
   \<and> facilitator_settle example_env example_strategy example_facilitator example_payload
     (example_requirements\<lparr>network := ''bitcoin''\<rparr>) =
     ([], Settles 0 (Inl (Error ''Unsupported network: bitcoin'')))"
  by (simp add: facilitator_verify_def facilitator_settle_def getNetworkFamily_def throws_def
      example_defs net_defs)

theorem dispatcher_outcomes_witness:
  "scheme (example_requirements\<lparr>scheme := ''upto''\<rparr>) \<noteq> ''exact''
   \<and> network (example_requirements\<lparr>scheme := ''upto''\<rparr>) \<notin> set SupportedEVMNetworks
   \<and> facilitator_verify example_env example_strategy example_facilitator example_payload
       (example_requirements\<lparr>scheme := ''upto''\<rparr>) =
       Settles 0 (Inr \<lparr>isValid = False, invalidReason = Some ''invalid_scheme'',
                       verify_payer = Some []\<rparr>)
   \<and> facilitator_settle example_env example_strategy example_facilitator example_payload
       (example_requirements\<lparr>scheme := ''upto''\<rparr>) =
       ([], Settles 0 (Inr \<lparr>success = False, errorReason = Some ''invalid_scheme'',
                            payer = Some [], transaction = [],
                            settle_network = ''hedera-testnet''\<rparr>))
   \<and> scheme example_requirements = ''exact''
   \<and> network example_requirements \<in> set SupportedHederaNetworks
   \<and> facilitator_settle example_env example_strategy example_facilitator example_payload
       example_requirements =
       settle example_env example_facilitator example_payload example_requirements
   \<and> network (example_requirements\<lparr>network := ''bitcoin''\<rparr>) \<notin> set NetworkSchema
   \<and> facilitator_verify example_env example_strategy example_facilitator example_payload
       (example_requirements\<lparr>network := ''bitcoin''\<rparr>) =
       Settles 0 (Inl (Error ''Unsupported network: bitcoin''))
   \<and> facilitator_verify example_env example_strategy example_facilitator
       (example_payload\<lparr>payload := ExactEvmPayload ''0xabc''\<rparr>)
       (example_requirements\<lparr>scheme := ''upto'', network := ''base''\<rparr>) =
       Settles 0 (Inr \<lparr>isValid = False, invalidReason = Some ''invalid_scheme'',
                       verify_payer = Some ''0xabc''\<rparr>)"
proof -
  have h1: "scheme (example_requirements\<lparr>scheme := ''upto''\<rparr>) \<noteq> ''exact''
      \<and> network (example_requirements\<lparr>scheme := ''upto''\<rparr>) \<notin> set SupportedEVMNetworks"
    by (simp add: example_defs net_defs)
  have h2: "scheme example_requirements = ''exact''
      \<and> network example_requirements \<in> set SupportedHederaNetworks"
    by (simp add: example_defs net_defs)
  have h3: "scheme (example_requirements\<lparr>network := ''bitcoin''\<rparr>) = ''exact''
      \<and> network (example_requirements\<lparr>network := ''bitcoin''\<rparr>) \<notin> set NetworkSchema"
    by (simp add: example_defs net_defs)
  have h4: "scheme (example_requirements\<lparr>scheme := ''upto'', network := ''base''\<rparr>) \<noteq> ''exact''
      \<and> network (example_requirements\<lparr>scheme := ''upto'', network := ''base''\<rparr>)
          \<in> set SupportedEVMNetworks
      \<and> payload (example_payload\<lparr>payload := ExactEvmPayload ''0xabc''\<rparr>) = ExactEvmPayload ''0xabc''"
    by (simp add: example_defs net_defs)
  have n: "network example_requirements = ''hedera-testnet''"
    by (simp add: example_defs)
  from h1 h2 h3 h4 n
    dispatcher_outcomes [where e = example_env and strat = example_strategy
      and client = example_facilitator and p = example_payload
      and req = "example_requirements\<lparr>scheme := ''upto''\<rparr>"]
    dispatcher_outcomes [where e = example_env and strat = example_strategy
      and client = example_facilitator and p = example_payload
      and req = example_requirements]
    dispatcher_outcomes [where e = example_env and strat = example_strategy
      and client = example_facilitator and p = example_payload
      and req = "example_requirements\<lparr>network := ''bitcoin''\<rparr>"]
    dispatcher_outcomes [where e = example_env and strat = example_strategy
      and client = example_facilitator
      and p = "example_payload\<lparr>payload := ExactEvmPayload ''0xabc''\<rparr>"
      and req = "example_requirements\<lparr>scheme := ''upto'', network := ''base''\<rparr>"
      and authorization_from = "''0xabc''"]
  show ?thesis by simp
qed

section \<open>The amount of the token legs\<close>

lemma digit_cases:
  assumes "c \<in> set ''0123456789''"
  shows "c = CHR ''0'' \<or> c = CHR ''1'' \<or> c = CHR ''2'' \<or> c = CHR ''3'' \<or> c = CHR ''4''
       \<or> c = CHR ''5'' \<or> c = CHR ''6'' \<or> c = CHR ''7'' \<or> c = CHR ''8'' \<or> c = CHR ''9''"
  using assms by simp

lemma decimal_digit_value:
  assumes "c \<in> set ''0123456789''"
  shows "digitValue c = Some (of_char c - 48)"
  using digit_cases [OF assms] by (elim disjE) (simp_all add: digitValue_def)

lemma decimal_digit_radix:
  assumes "c \<in> set ''0123456789''"
  shows "isRadixDigit 10 c"
  using digit_cases [OF assms] by (elim disjE) (simp_all add: isRadixDigit_def digitValue_def)

lemma decimal_digit_other:
  assumes "c \<in> set ''0123456789''"
  shows "\<not> isWhiteSpace c" and "c \<noteq> CHR ''-''" and "c \<noteq> CHR ''+''" and "c \<noteq> CHR ''x''" and "c \<noteq> CHR ''X''"
  using digit_cases [OF assms] by (auto simp: isWhiteSpace_def)

lemma decimal_digit_not_multibyte:
  assumes "c \<in> set ''0123456789''"
  shows "c \<noteq> CHR 0xC2" and "\<not> isWhiteSpace3 c a b"
  using digit_cases [OF assms] by (auto simp: isWhiteSpace3_def)

lemma trimStart_digit:
  assumes "c \<in> set ''0123456789''"
  shows "trimStart (c # cs) = c # cs"
  using decimal_digit_other(1) [OF assms] decimal_digit_not_multibyte [OF assms]
  by (simp split: list.splits)

lemma foldl_digits:
  assumes "set s \<subseteq> set ''0123456789''"
  shows "foldl (\<lambda>acc c. acc * 10 + (case digitValue c of None \<Rightarrow> 0 | Some v \<Rightarrow> v)) a s
       = foldl (\<lambda>acc c. 10 * acc + (of_char c - 48)) a s"
  using assms
proof (induction s arbitrary: a)
  case Nil
  then show ?case by simp
next
  case (Cons c s)
  from Cons.prems have c: "c \<in> set ''0123456789''" and s: "set s \<subseteq> set ''0123456789''"
    by auto
  from decimal_digit_value [OF c] Cons.IH [OF s] show ?case
    by (simp add: mult.commute)
qed

lemma radixValue_decimal:
  "set s \<subseteq> set ''0123456789'' \<Longrightarrow> radixValue 10 s = decimalValue s"
  by (simp add: radixValue_def decimalValue_def foldl_digits)

lemma not_hex_prefix:
  assumes "set s \<subseteq> set ''0123456789''"
  shows "take 2 s \<noteq> ''0x''" and "take 2 s \<noteq> ''0X''"
proof -
  have x: "CHR ''x'' \<notin> set s" and X: "CHR ''X'' \<notin> set s"
    using assms decimal_digit_other(4,5) by blast+
  have sub: "set (take 2 s) \<subseteq> set s"
    by (rule set_take_subset)
  show "take 2 s \<noteq> ''0x''"
  proof
    assume "take 2 s = ''0x''"
    then have "CHR ''x'' \<in> set (take 2 s)" by simp
    with sub x show False by blast
  qed
  show "take 2 s \<noteq> ''0X''"
  proof
    assume "take 2 s = ''0X''"
    then have "CHR ''X'' \<in> set (take 2 s)" by simp
    with sub X show False by blast
  qed
qed

lemma parseInt_decimal:
  assumes "isDecimalString s" and "decimalValue s \<le> 2 ^ 53"
  shows "parseInt s = Finite False (decimalValue s)"
proof -
  from assms(1) obtain c cs where s: "s = c # cs" and sub: "set s \<subseteq> set ''0123456789''"
    by (cases s) (auto simp: isDecimalString_def)
  then have c: "c \<in> set ''0123456789''" by simp
  have ws: "trimStart s = s"
    unfolding s by (rule trimStart_digit [OF c])
  have neg: "(case s of [] \<Rightarrow> False | c # _ \<Rightarrow> c = CHR ''-'') = False"
    unfolding s using decimal_digit_other(2) [OF c] by simp
  have S1: "(case s of [] \<Rightarrow> [] | c # cs \<Rightarrow> if c = CHR ''+'' \<or> c = CHR ''-'' then cs else s) = s"
    unfolding s using decimal_digit_other(2,3) [OF c] by simp
  have hex: "(take 2 s = ''0x'' \<or> take 2 s = ''0X'') = False"
    using not_hex_prefix [OF sub] by simp
  have tw: "takeWhile (isRadixDigit 10) s = s"
    using sub decimal_digit_radix by (auto simp: takeWhile_eq_all_conv)
  have ne: "(s = []) = False"
    by (simp add: s)
  have num: "toNumber False (decimalValue s) = Finite False (decimalValue s)"
    using assms(2) by (simp add: toNumber_def roundToDouble_def)
  have "parseInt s = toNumber False (radixValue 10 s)"
    by (simp only: parseInt_def Let_def ws neg S1 hex if_False tw ne)
  with num radixValue_decimal [OF sub] show ?thesis by simp
qed

text \<open>
  C7, as amended. On the token path (fee payer present, identifiers accepted by the
  SDK) the Builder makes no check of the amount of its own: for every amount string, the
  transaction it hands to \<open>freezeWith\<close> has the debit leg
  \<open>-parseInt(maxAmountRequired)\<close> and the credit leg \<open>parseInt(maxAmountRequired)\<close>.
  When the string consists of decimal digits only and denotes at most \<open>2^53\<close>, both
  legs carry exactly the declared amount, negated for the debit leg.
\<close>

theorem token_legs_carry_parseInt:
  assumes "feePayerOf req = Some feePayer" and "feePayer \<noteq> []"
    and "AccountId_fromString e feePayer = Inr facilitatorAccountId"
    and "\<not> isHbarAddress (asset req)"
    and "AccountId_fromString e (payTo req) = Inr toAccount"
    and "TokenId_fromString e (asset req) = Inr tokenId"
  shows "createTransferTransaction e client req =
           Transaction_freezeWith e
             (TransferTransaction (Some (TransactionId_generate e facilitatorAccountId)) []
                [(tokenId, accountId client, negate (parseInt (maxAmountRequired req))),
                 (tokenId, toAccount, parseInt (maxAmountRequired req))])
         \<and> (isDecimalString (maxAmountRequired req)
              \<and> decimalValue (maxAmountRequired req) \<le> 2 ^ 53 \<longrightarrow>
            createTransferTransaction e client req =
              Transaction_freezeWith e
                (TransferTransaction (Some (TransactionId_generate e facilitatorAccountId)) []
                   [(tokenId, accountId client, Finite True (decimalValue (maxAmountRequired req))),
                    (tokenId, toAccount, Finite False (decimalValue (maxAmountRequired req)))]))"
proof -
  have g: "createTransferTransaction e client req =
           Transaction_freezeWith e
             (TransferTransaction (Some (TransactionId_generate e facilitatorAccountId)) []
                [(tokenId, accountId client, negate (parseInt (maxAmountRequired req))),
                 (tokenId, toAccount, parseInt (maxAmountRequired req))])"
    using assms
    by (simp add: createTransferTransaction_def createTokenTransferTransaction_def Let_def)
  show ?thesis
  proof (intro conjI impI)
    show "createTransferTransaction e client req =
           Transaction_freezeWith e
             (TransferTransaction (Some (TransactionId_generate e facilitatorAccountId)) []
                [(tokenId, accountId client, negate (parseInt (maxAmountRequired req))),
                 (tokenId, toAccount, parseInt (maxAmountRequired req))])"
      by (rule g)
  next
    assume "isDecimalString (maxAmountRequired req)
              \<and> decimalValue (maxAmountRequired req) \<le> 2 ^ 53"
    then have "parseInt (maxAmountRequired req) = Finite False (decimalValue (maxAmountRequired req))"
      by (simp add: parseInt_decimal)
    with g show "createTransferTransaction e client req =
              Transaction_freezeWith e
                (TransferTransaction (Some (TransactionId_generate e facilitatorAccountId)) []
                   [(tokenId, accountId client, Finite True (decimalValue (maxAmountRequired req))),
                    (tokenId, toAccount, Finite False (decimalValue (maxAmountRequired req)))])"
      by (simp add: negate_def)
  qed
qed


theorem token_legs_carry_parseInt_witness:
  "feePayerOf example_token_requirements = Some ''0.0.999999''
   \<and> \<not> isHbarAddress (asset example_token_requirements)
   \<and> isDecimalString (maxAmountRequired example_token_requirements)
   \<and> decimalValue (maxAmountRequired example_token_requirements) = 1000000
   \<and> createTransferTransaction example_env example_client example_token_requirements =
       Inr (TransferTransaction
              (Some \<lparr>tid_accountId = Some ''0.0.999999'', tid_validStart = 1700000000\<rparr>) []
              [(''0.0.429274'', ''0.0.123456'', Finite True 1000000),
               (''0.0.429274'', ''0.0.789012'', Finite False 1000000)])"
proof -
  have 1: "feePayerOf example_token_requirements = Some ''0.0.999999''"
    by (simp add: feePayerOf_def example_defs)
  have 2: "''0.0.999999'' \<noteq> []" by simp
  have 3: "AccountId_fromString example_env ''0.0.999999'' = Inr ''0.0.999999''"
    by (simp add: example_defs)
  have 4: "\<not> isHbarAddress (asset example_token_requirements)"
    by (simp add: isHbarAddress_def toLowerCase_def toLowerChar_def example_defs)
  have 5: "AccountId_fromString example_env (payTo example_token_requirements) = Inr ''0.0.789012''"
    by (simp add: example_defs)
  have 6: "TokenId_fromString example_env (asset example_token_requirements) = Inr ''0.0.429274''"
    by (simp add: example_defs)
  have 7: "isDecimalString (maxAmountRequired example_token_requirements)"
    by (simp add: isDecimalString_def example_defs)
  have 8: "decimalValue (maxAmountRequired example_token_requirements) = 1000000"
    by (simp add: decimalValue_def example_defs)
  have 9: "accountId example_client = ''0.0.123456''"
    by (simp add: example_defs)
  have 10: "Transaction_freezeWith example_env = Inr"
    by (simp add: example_defs)
  have 11: "TransactionId_generate example_env ''0.0.999999'' =
      \<lparr>tid_accountId = Some ''0.0.999999'', tid_validStart = 1700000000\<rparr>"
    by (simp add: TransactionId_generate_def example_defs)
  have 12: "decimalValue (maxAmountRequired example_token_requirements) \<le> 2 ^ 53"
    by (simp add: 8)
  from token_legs_carry_parseInt [OF 1 2 3 4 5 6, of example_client] 7 12
  have "createTransferTransaction example_env example_client example_token_requirements =
      Transaction_freezeWith example_env
        (TransferTransaction (Some (TransactionId_generate example_env ''0.0.999999'')) []
           [(''0.0.429274'', accountId example_client,
             Finite True (decimalValue (maxAmountRequired example_token_requirements))),
            (''0.0.429274'', ''0.0.789012'',
             Finite False (decimalValue (maxAmountRequired example_token_requirements)))])"
    by blast
  then have "createTransferTransaction example_env example_client example_token_requirements =
       Inr (TransferTransaction
              (Some \<lparr>tid_accountId = Some ''0.0.999999'', tid_validStart = 1700000000\<rparr>) []
              [(''0.0.429274'', ''0.0.123456'', Finite True 1000000),
               (''0.0.429274'', ''0.0.789012'', Finite False 1000000)])"
    by (simp only: 8 9 10 11)
  with 1 4 7 8 show ?thesis by blast
qed

text \<open>
  C7, the claim as stated fails: the Builder accepts the fractional amount \<open>1000000.5\<close>
  and truncates it to 1000000 on both legs (as the repository's test of the shared helper
  expects), accepts the negative amount \<open>-5\<close> (the debit leg becomes \<open>+5\<close>), and accepts
  the non-numeric amount \<open>abc\<close> (both legs \<open>NaN\<close>); none is a failure.
\<close>

theorem token_amount_truncated_not_rejected:
  "createTransferTransaction example_env example_client
     (example_token_requirements\<lparr>maxAmountRequired := ''1000000.5''\<rparr>) =
     Inr (TransferTransaction
            (Some \<lparr>tid_accountId = Some ''0.0.999999'', tid_validStart = 1700000000\<rparr>) []
            [(''0.0.429274'', ''0.0.123456'', Finite True 1000000),
             (''0.0.429274'', ''0.0.789012'', Finite False 1000000)])
   \<and> createTransferTransaction example_env example_client
     (example_token_requirements\<lparr>maxAmountRequired := ''-5''\<rparr>) =
     Inr (TransferTransaction
            (Some \<lparr>tid_accountId = Some ''0.0.999999'', tid_validStart = 1700000000\<rparr>) []
            [(''0.0.429274'', ''0.0.123456'', Finite False 5),
             (''0.0.429274'', ''0.0.789012'', Finite True 5)])
   \<and> createTransferTransaction example_env example_client
     (example_token_requirements\<lparr>maxAmountRequired := ''abc''\<rparr>) =
     Inr (TransferTransaction
            (Some \<lparr>tid_accountId = Some ''0.0.999999'', tid_validStart = 1700000000\<rparr>) []
            [(''0.0.429274'', ''0.0.123456'', NaN), (''0.0.429274'', ''0.0.789012'', NaN)])
   \<and> shared_createTokenTransferTransaction ''0.0.429274'' ''0.0.123456'' ''0.0.789012''
       ''1000000.5'' =
     TransferTransaction None []
       [(''0.0.429274'', ''0.0.123456'', Finite True 1000000),
        (''0.0.429274'', ''0.0.789012'', Finite False 1000000)]"
proof -
  have p1: "parseInt ''1000000.5'' = Finite False 1000000"
    by (simp add: parse_defs)
  have p2: "parseInt ''-5'' = Finite True 5"
    by (simp add: parse_defs)
  have p3: "parseInt ''abc'' = NaN"
    by (simp add: parse_defs)
  have a: "\<And>s. createTransferTransaction example_env example_client
     (example_token_requirements\<lparr>maxAmountRequired := s\<rparr>) =
     Inr (TransferTransaction
            (Some \<lparr>tid_accountId = Some ''0.0.999999'', tid_validStart = 1700000000\<rparr>) []
            [(''0.0.429274'', ''0.0.123456'', negate (parseInt s)),
             (''0.0.429274'', ''0.0.789012'', parseInt s)])"
    by (simp add: createTransferTransaction_def createTokenTransferTransaction_def
        TransactionId_generate_def isHbarAddress_def feePayerOf_def toLowerCase_def
        toLowerChar_def example_defs)
  show ?thesis
    by (simp add: a p1 p2 p3 negate_def shared_createTokenTransferTransaction_def)
qed

section \<open>The response of a successful settlement\<close>

lemma executeTransaction_success:
  assumes "executeTransaction e tx signer = (es, Settles d (Inr r))" and "exec_success r"
  shows "\<exists>d1 d2 d3 signedTransaction response receipt.
           Transaction_sign e tx (privateKey signer) = Settles d1 (Inr signedTransaction)
           \<and> Transaction_execute e signedTransaction = Settles d2 (Inr response)
           \<and> TransactionResponse_getReceipt e response = Settles d3 (Inr receipt)
           \<and> status receipt = Success
           \<and> exec_transactionId r = transactionId response
           \<and> es = [Signing tx (privateKey signer), Submitting signedTransaction,
                   ReceiptQuery response]
           \<and> d = d1 + (d2 + d3)"
  using assms
  by (auto simp: executeTransaction_def addSignatureToTransaction_def after_def
      executeTransaction_catch_def
      split: completion.splits sum.splits thrown.splits if_splits)

text \<open>
  C10, as amended. When \<open>settle\<close> returns \<open>success: true\<close>: its \<open>transaction\<close> field is
  the ledger's transaction identifier, that is the rendering of the transaction id of the
  ledger's response to the submission, whose receipt had the status \<open>Success\<close>; it is a
  non-empty string, given that the SDK renders the transaction id of every response as a
  non-empty string. Its \<open>payer\<close> field is the facilitator signer's own account id, which
  \<open>verify\<close> has found equal to the account of the transaction id and to
  \<open>requirements.extra.feePayer\<close>: it is taken from the signer, not from the payload.
\<close>

theorem settle_success_response:
  assumes "settle e signer p req = (es, Settles d (Inr r))" and "success r"
  shows "payer r = Some (accountId signer)
         \<and> feePayerOf req = Some (accountId signer)
         \<and> (\<exists>tx d1 d2 d3 signedTransaction response receipt.
               deserializeTransaction e (transactionField (payload p)) = Inr tx
               \<and> embeddedFeePayer tx = Some (accountId signer)
               \<and> Transaction_sign e tx (privateKey signer) = Settles d1 (Inr signedTransaction)
               \<and> Transaction_execute e signedTransaction = Settles d2 (Inr response)
               \<and> TransactionResponse_getReceipt e response = Settles d3 (Inr receipt)
               \<and> status receipt = Success
               \<and> transaction r = transactionId response
               \<and> es = [Signing tx (privateKey signer), Submitting signedTransaction,
                       ReceiptQuery response])
         \<and> ((\<forall>tx' d' response'.
                 Transaction_execute e tx' = Settles d' (Inr response')
                 \<longrightarrow> transactionId response' \<noteq> [])
              \<longrightarrow> transaction r \<noteq> [])"
proof -
  have valid: "isValid (verify e signer p req)"
  proof (rule ccontr)
    assume "\<not> isValid (verify e signer p req)"
    with assms show False by (auto simp: settle_def returns_def Let_def)
  qed
  from verify_valid_decodes [OF valid] obtain tx where
    d: "deserializeTransaction e (transactionField (payload p)) = Inr tx"
    and i: "transactionIntrospection e signer tx req = Inr ()" by blast
  from introspection_ok_agree [OF i] have ag:
    "embeddedFeePayer tx = Some (accountId signer)" "feePayerOf req = Some (accountId signer)"
    by simp_all
  obtain es' c where x: "executeTransaction e tx signer = (es', c)"
    by (cases "executeTransaction e tx signer")
  from assms valid d x obtain x' where
    c: "c = Settles d (Inr x')" and es: "es' = es" and sx: "exec_success x'"
    and pr: "payer r = Some (accountId signer)" and tr: "transaction r = exec_transactionId x'"
    by (auto simp: settle_def Let_def split: completion.splits sum.splits)
  from executeTransaction_success [OF x [unfolded c es] sx] tr
  obtain d1 d2 d3 signedTransaction response receipt where
    "Transaction_sign e tx (privateKey signer) = Settles d1 (Inr signedTransaction)"
    "Transaction_execute e signedTransaction = Settles d2 (Inr response)"
    "TransactionResponse_getReceipt e response = Settles d3 (Inr receipt)"
    "status receipt = Success"
    "transaction r = transactionId response"
    "es = [Signing tx (privateKey signer), Submitting signedTransaction, ReceiptQuery response]"
    by auto
  note led = this
  have nonempty: "(\<forall>tx' d' response'.
                 Transaction_execute e tx' = Settles d' (Inr response')
                 \<longrightarrow> transactionId response' \<noteq> [])
              \<longrightarrow> transaction r \<noteq> []"
    using led(2,5) by auto
  have ledger: "\<exists>tx d1 d2 d3 signedTransaction response receipt.
               deserializeTransaction e (transactionField (payload p)) = Inr tx
               \<and> embeddedFeePayer tx = Some (accountId signer)
               \<and> Transaction_sign e tx (privateKey signer) = Settles d1 (Inr signedTransaction)
               \<and> Transaction_execute e signedTransaction = Settles d2 (Inr response)
               \<and> TransactionResponse_getReceipt e response = Settles d3 (Inr receipt)
               \<and> status receipt = Success
               \<and> transaction r = transactionId response
               \<and> es = [Signing tx (privateKey signer), Submitting signedTransaction,
                       ReceiptQuery response]"
    using d ag(1) led by blast
  from pr ag(2) ledger nonempty show ?thesis by (intro conjI)
qed

lemma example_settle_evaluates:
  "settle example_env example_facilitator example_payload example_requirements =
     ([Signing example_transaction ''facilitator-key'', Submitting example_transaction,
       ReceiptQuery \<lparr>transactionId = ''0.0.999999@1700000000.000000000''\<rparr>],
      Settles 2105 (Inr \<lparr>success = True, errorReason = None, payer = Some ''0.0.999999'',
                          transaction = ''0.0.999999@1700000000.000000000'',
                          settle_network = ''hedera-testnet''\<rparr>))"
proof -
  have v: "verify example_env example_facilitator example_payload example_requirements =
      \<lparr>isValid = True, invalidReason = None, verify_payer = None\<rparr>"
    by (simp add: verify_defs example_defs net_defs)
  show ?thesis
    by (simp add: settle_def v)
      (simp add: settle_defs deserializeTransaction_def transactionField_def example_defs)
qed

theorem settle_success_response_witness:
  "settle example_env example_facilitator example_payload example_requirements =
     ([Signing example_transaction ''facilitator-key'', Submitting example_transaction,
       ReceiptQuery \<lparr>transactionId = ''0.0.999999@1700000000.000000000''\<rparr>],
      Settles 2105 (Inr \<lparr>success = True, errorReason = None, payer = Some ''0.0.999999'',
                          transaction = ''0.0.999999@1700000000.000000000'',
                          settle_network = ''hedera-testnet''\<rparr>))
   \<and> Some ''0.0.999999'' = Some (accountId example_facilitator)
   \<and> feePayerOf example_requirements = Some (accountId example_facilitator)
   \<and> transaction \<lparr>success = True, errorReason = None, payer = Some ''0.0.999999'',
                    transaction = ''0.0.999999@1700000000.000000000'',
                    settle_network = ''hedera-testnet''\<rparr> \<noteq> []"
proof -
  have rendering: "\<forall>tx' d' response'.
      Transaction_execute example_env tx' = Settles d' (Inr response')
      \<longrightarrow> transactionId response' \<noteq> []"
    by (auto simp: example_defs)
  have ok: "success \<lparr>success = True, errorReason = None, payer = Some ''0.0.999999'',
                    transaction = ''0.0.999999@1700000000.000000000'',
                    settle_network = ''hedera-testnet''\<rparr>"
    by simp
  from settle_success_response [OF example_settle_evaluates ok] rendering
  have "payer \<lparr>success = True, errorReason = None, payer = Some ''0.0.999999'',
                    transaction = ''0.0.999999@1700000000.000000000'',
                    settle_network = ''hedera-testnet''\<rparr> = Some (accountId example_facilitator)
      \<and> feePayerOf example_requirements = Some (accountId example_facilitator)
      \<and> transaction \<lparr>success = True, errorReason = None, payer = Some ''0.0.999999'',
                    transaction = ''0.0.999999@1700000000.000000000'',
                    settle_network = ''hedera-testnet''\<rparr> \<noteq> []"
    by blast
  with example_settle_evaluates show ?thesis by simp
qed

text \<open>
  C10, the claim as stated fails: in the scenario of the specification the payment is
  built and signed by the payer \<open>0.0.123456\<close>, and the successful response's \<open>payer\<close>
  field is \<open>0.0.999999\<close>, the facilitator that pays the fees, not the payer's address.
\<close>

theorem settle_payer_is_facilitator:
  "createAndSignPayment example_env example_client 1 example_requirements =
     ([Signing example_transaction ''client-key''], Settles 5 (Inr example_payload))
   \<and> accountId example_client = ''0.0.123456''
   \<and> settle example_env example_facilitator example_payload example_requirements =
     ([Signing example_transaction ''facilitator-key'', Submitting example_transaction,
       ReceiptQuery \<lparr>transactionId = ''0.0.999999@1700000000.000000000''\<rparr>],
      Settles 2105 (Inr \<lparr>success = True, errorReason = None, payer = Some ''0.0.999999'',
                          transaction = ''0.0.999999@1700000000.000000000'',
                          settle_network = ''hedera-testnet''\<rparr>))"
proof -
  have b: "createAndSignPayment example_env example_client 1 example_requirements =
     ([Signing example_transaction ''client-key''], Settles 5 (Inr example_payload))"
    by (simp add: build_defs example_defs radixValue_def digitValue_def)
  have c: "accountId example_client = ''0.0.123456''"
    by (simp add: example_defs)
  from b c example_settle_evaluates show ?thesis by blast
qed

end
